theory Spec2Isabelle
  imports Complex_Main
begin

section \<open>Data model\<close>

text \<open>
  The BMFMC model (\<^verbatim>\<open>pqueens/models/bmfmc_model.py\<close>) and the BMFIA iterator
  (\<^verbatim>\<open>pqueens/iterators/bmfia_iterator.py\<close>) compute on numpy arrays of doubles.
  The embedding of the two classes takes the entries as real numbers. A two-dimensional
  array is the list of its rows; a one-dimensional array, and a column array of shape
  \<open>(N, 1)\<close>, is the list of its entries. The two computations whose outcome depends on
  rounding, overflow and \<open>nan\<close> are embedded a second time on doubles, in the section on
  double precision.

  Python exceptions are values of \<open>error\<close>. numpy does not raise on a division by
  zero or on the square root of a negative number: it goes on with \<open>inf\<close> or
  \<open>nan\<close>. No real number stands for these, so the embedding ends such a computation
  with \<open>NotFinite\<close>, which is not a Python exception.
\<close>

datatype error =
    ValueError
  | IOError
  | NotImplementedError
  | RuntimeError
  | IndexError
  | AttributeError
  | TypeError
  | ZeroDivisionError
  | KeyError
  | NotFinite

type_synonym vec = "real list"
type_synonym mat = "real list list"

subsection \<open>Errors\<close>

definition bind_err :: "error + 'a \<Rightarrow> ('a \<Rightarrow> error + 'b) \<Rightarrow> error + 'b" where
  "bind_err m f = (case m of Inl e \<Rightarrow> Inl e | Inr x \<Rightarrow> f x)"

text \<open>A loop whose body may raise: the first exception ends it.\<close>

fun fold_err :: "('a \<Rightarrow> 's \<Rightarrow> error + 's) \<Rightarrow> 'a list \<Rightarrow> 's \<Rightarrow> error + 's" where
  "fold_err f [] s = Inr s"
| "fold_err f (x # xs) s = bind_err (f x s) (fold_err f xs)"

text \<open>Reading \<^verbatim>\<open>xs[i]\<close> with a Python integer: an index below zero is taken from the
  back, and an index outside \<open>-len(xs) .. len(xs) - 1\<close> raises.\<close>

definition py_index :: "'a list \<Rightarrow> int \<Rightarrow> error + 'a" where
  "py_index xs i =
     (if 0 \<le> i \<and> i < int (length xs) then Inr (xs ! nat i)
      else if i < 0 \<and> - int (length xs) \<le> i then Inr (xs ! nat (int (length xs) + i))
      else Inl IndexError)"

text \<open>The slice \<^verbatim>\<open>xs[0:k]\<close>; a negative \<open>k\<close> counts from the end.\<close>

definition py_slice_to :: "'a list \<Rightarrow> int \<Rightarrow> 'a list" where
  "py_slice_to xs k = (if 0 \<le> k then take (nat k) xs else take (length xs - nat (- k)) xs)"

subsection \<open>numpy reductions and products\<close>

text \<open>\<^verbatim>\<open>np.min\<close> and \<^verbatim>\<open>np.max\<close> without an axis reduce over all entries of the
  array and raise \<^verbatim>\<open>ValueError\<close> on an array without entries.\<close>

definition np_min :: "mat \<Rightarrow> error + real" where
  "np_min M = (case concat M of [] \<Rightarrow> Inl ValueError | x # xs \<Rightarrow> Inr (fold min xs x))"

definition np_max :: "mat \<Rightarrow> error + real" where
  "np_max M = (case concat M of [] \<Rightarrow> Inl ValueError | x # xs \<Rightarrow> Inr (fold max xs x))"

text \<open>\<^verbatim>\<open>np.dot(A, B)\<close> of two-dimensional arrays: every row of \<open>A\<close> must be as long
  as \<open>B\<close> has rows.\<close>

definition np_dot :: "mat \<Rightarrow> mat \<Rightarrow> error + mat" where
  "np_dot A B =
     (if \<forall>r \<in> set A. length r = length B
      then Inr (map (\<lambda>r. map (\<lambda>c. sum_list (map2 (*) r c)) (transpose B)) A)
      else Inl ValueError)"

text \<open>\<^verbatim>\<open>np.hstack((A, B))\<close> of two-dimensional arrays joins the rows pairwise.\<close>

definition np_hstack :: "mat \<Rightarrow> mat \<Rightarrow> error + mat" where
  "np_hstack A B = (if length A = length B then Inr (map2 (@) A B) else Inl ValueError)"

text \<open>\<^verbatim>\<open>np.sum(M, axis=0)\<close> of an array with \<open>S\<close> columns: the column sums.\<close>

definition np_sum_axis0 :: "nat \<Rightarrow> mat \<Rightarrow> vec" where
  "np_sum_axis0 S M = map (\<lambda>k. sum_list (map (\<lambda>row. row ! k) M)) [0..<S]"

subsection \<open>Library functions\<close>

text \<open>
  \<^verbatim>\<open>sklearn.preprocessing.StandardScaler().fit_transform\<close>: every column is shifted by
  its mean and divided by its population standard deviation, a standard deviation of zero
  being replaced by one. An array without rows or without columns is refused.
\<close>

definition column_mean :: "vec \<Rightarrow> real" where
  "column_mean c = sum_list c / real (length c)"

definition column_scale :: "vec \<Rightarrow> real" where
  "column_scale c =
     (let s = sqrt (sum_list (map (\<lambda>x. (x - column_mean c)\<^sup>2) c) / real (length c))
      in if s = 0 then 1 else s)"

definition StandardScaler_fit_transform :: "mat \<Rightarrow> error + mat" where
  "StandardScaler_fit_transform M =
     (if M = [] \<or> (\<exists>r \<in> set M. r = []) then Inl ValueError
      else Inr (transpose
                 (map (\<lambda>c. map (\<lambda>x. (x - column_mean c) / column_scale c) c) (transpose M))))"

text \<open>
  \<^verbatim>\<open>scipy.stats.norm.pdf(x, loc, scale)\<close> standardises its argument, evaluates the
  standard normal density \<open>exp(-z\<^sup>2/2) / sqrt(2 pi)\<close> and divides by the scale. It is
  \<open>nan\<close> for a scale that is not positive; the caller below excludes that case first.
\<close>

definition norm_pdf :: "real \<Rightarrow> real \<Rightarrow> real \<Rightarrow> real" where
  "norm_pdf x loc scale = exp (- (((x - loc) / scale)\<^sup>2) / 2) / sqrt (2 * pi) / scale"

section \<open>Private helper functions of the BMFMC model\<close>

text \<open>
  \<^verbatim>\<open>
  def _linear_scale_a_to_b(data_a, data_b):
      min_b = np.min(data_b)
      max_b = np.max(data_b)
      scaled_a = min_b + (data_a - np.min(data_a)) * (
          (max_b - min_b) / (np.max(data_a) - np.min(data_a))
      )
      return scaled_a
  \<close>
  The quotient has the denominator \<open>max(data_a) - min(data_a)\<close>; where it is zero numpy
  yields \<open>inf\<close> or \<open>nan\<close>, here \<open>NotFinite\<close>.
\<close>

definition linear_scale_a_to_b :: "mat \<Rightarrow> mat \<Rightarrow> error + mat" where
  "linear_scale_a_to_b data_a data_b =
     bind_err (np_min data_b) (\<lambda>min_b.
     bind_err (np_max data_b) (\<lambda>max_b.
     bind_err (np_min data_a) (\<lambda>min_a.
     bind_err (np_max data_a) (\<lambda>max_a.
       if max_a - min_a = 0 then Inl NotFinite
       else Inr (map (map (\<lambda>x. min_b + (x - min_a) * ((max_b - min_b) / (max_a - min_a))))
                   data_a)))))"

text \<open>The affine map that is claimed for \<^verbatim>\<open>_linear_scale_a_to_b\<close>: it sends
  \<open>min(data_a)\<close> to \<open>min(data_b)\<close> with the slope
  \<open>(max(data_b) - min(data_b)) / (max(data_a) - min(data_a))\<close>.\<close>

definition affine_a_to_b :: "mat \<Rightarrow> mat \<Rightarrow> real \<Rightarrow> real" where
  "affine_a_to_b data_a data_b x =
     Min (set (concat data_b)) +
     (x - Min (set (concat data_a))) * (Max (set (concat data_b)) - Min (set (concat data_b)))
       / (Max (set (concat data_a)) - Min (set (concat data_a)))"

section \<open>Posterior statistics of the HF output density\<close>

subsection \<open>Posterior mean\<close>

text \<open>
  \<^verbatim>\<open>
  def _calculate_p_yhf_mean(self):
      standard_deviation = np.sqrt(self.var_y_mc)
      pdf_mat = st.norm.pdf(self.y_pdf_support, loc=self.m_f_mc, scale=standard_deviation)
      pyhf_mean_vec = np.sum(pdf_mat, axis=0)
      self.p_yhf_mean = 1 / self.m_f_mc.size * pyhf_mean_vec
  \<close>
  \<open>m_f_mc\<close> and \<open>var_y_mc\<close> are columns of shape \<open>(N, 1)\<close> and \<open>(M, 1)\<close>, and the support
  has shape \<open>(S,)\<close>. Broadcasting pairs the two columns entry by entry when \<open>N = M\<close>,
  repeats the one entry of a column of length one, and raises otherwise; \<open>pdf_mat\<close> has one
  row per pair and one column per support point. A variance that is not positive gives
  \<open>nan\<close> in its row, and so in every column sum when the support has a point.
  \<open>m_f_mc.size\<close> is a Python integer, and \<open>1 / 0\<close> raises.
\<close>

definition broadcast_pairs :: "'a list \<Rightarrow> 'b list \<Rightarrow> error + ('a \<times> 'b) list" where
  "broadcast_pairs xs ys =
     (if length xs = length ys then Inr (zip xs ys)
      else if length ys = 1 then Inr (map (\<lambda>x. (x, hd ys)) xs)
      else if length xs = 1 then Inr (map (\<lambda>y. (hd xs, y)) ys)
      else Inl ValueError)"

definition p_yhf_mean_on_support :: "vec \<Rightarrow> vec \<Rightarrow> vec \<Rightarrow> error + vec" where
  "p_yhf_mean_on_support support m_f var_y =
     bind_err (broadcast_pairs m_f var_y) (\<lambda>samples.
       if support \<noteq> [] \<and> (\<exists>(loc, v) \<in> set samples. v \<le> 0) then Inl NotFinite
       else
         let pdf_mat = map (\<lambda>(loc, v). map (\<lambda>x. norm_pdf x loc (sqrt v)) support) samples;
             pyhf_mean_vec = np_sum_axis0 (length support) pdf_mat
         in if length m_f = 0 then Inl ZeroDivisionError
            else Inr (map (\<lambda>p. 1 / real (length m_f) * p) pyhf_mean_vec))"

text \<open>The univariate Gaussian density with mean \<open>mu\<close> and standard deviation \<open>sigma\<close>,
  as the claims word it.\<close>

definition gaussian_density :: "real \<Rightarrow> real \<Rightarrow> real \<Rightarrow> real" where
  "gaussian_density s mu sigma = exp (- (s - mu)\<^sup>2 / (2 * sigma\<^sup>2)) / (sigma * sqrt (2 * pi))"

subsection \<open>Posterior variance\<close>

text \<open>
  The body of the inner loop of \<^verbatim>\<open>_calculate_p_yhf_var\<close>, from the covariance it has
  read to the vector that is added to \<open>yhf_pdf_grid\<close>:
  \<^verbatim>\<open>
  mean_vec = np.array([mean1, mean2])
  diff = points - mean_vec.T
  det_sigma = var1 * var2 - covariance ** 2
  if det_sigma < 0:
      det_sigma = 1e-6
      covariance = 0.95 * covariance
  inv_sigma = (1 / det_sigma
      * np.array([[var2, -covariance], [-covariance, var1]], dtype=np.float64))
  a = np.dot(diff, inv_sigma)
  b = np.einsum('ij,ij->i', a, diff)
  c = np.sqrt(4 * np.pi ** 2 * det_sigma)
  args = -0.5 * b + np.log(1 / c)
  args[args > 40] = 40  # limit arguments for for better conditioning
  yhf_pdf_grid += np.exp(args)
  \<close>
  with \<^verbatim>\<open>points = np.vstack((self.y_pdf_support, self.y_pdf_support)).T\<close>. A determinant
  of zero is not clamped and divides by zero.
\<close>

definition pair_contribution :: "vec \<Rightarrow> real \<Rightarrow> real \<Rightarrow> real \<Rightarrow> real \<Rightarrow> real \<Rightarrow> error + vec" where
  "pair_contribution support mean1 var1 mean2 var2 covariance0 =
     (let points = map (\<lambda>s. [s, s]) support;
          mean_vec = [mean1, mean2];
          diff = map (\<lambda>p. map2 (-) p mean_vec) points;
          det_sigma0 = var1 * var2 - covariance0\<^sup>2;
          det_sigma = (if det_sigma0 < 0 then 1 / 10 ^ 6 else det_sigma0);
          covariance = (if det_sigma0 < 0 then 95 / 100 * covariance0 else covariance0)
      in if det_sigma = 0 then Inl NotFinite
         else
           let inv_sigma = map (map (\<lambda>x. 1 / det_sigma * x))
                               [[var2, - covariance], [- covariance, var1]]
           in bind_err (np_dot diff inv_sigma) (\<lambda>a.
                let b = map2 (\<lambda>ra rd. sum_list (map2 (*) ra rd)) a diff;
                    c = sqrt (4 * pi\<^sup>2 * det_sigma);
                    args = map (\<lambda>bk. - (1 / 2) * bk + ln (1 / c)) b;
                    clipped = map (\<lambda>x. if x > 40 then 40 else x) args
                in Inr (map exp clipped)))"

text \<open>The determinant and the covariance the loop body goes on with, and the quadratic form
  \<open>diff\<^sup>T inv_sigma diff\<close> of one support point, for stating what the body computes.\<close>

definition clamped_det :: "real \<Rightarrow> real \<Rightarrow> real \<Rightarrow> real" where
  "clamped_det var1 var2 covariance =
     (if var1 * var2 - covariance\<^sup>2 < 0 then 1 / 10 ^ 6 else var1 * var2 - covariance\<^sup>2)"

definition clamped_cov :: "real \<Rightarrow> real \<Rightarrow> real \<Rightarrow> real" where
  "clamped_cov var1 var2 covariance =
     (if var1 * var2 - covariance\<^sup>2 < 0 then 95 / 100 * covariance else covariance)"

definition quadratic_form :: "real \<Rightarrow> real \<Rightarrow> real \<Rightarrow> real \<Rightarrow> real \<Rightarrow> real \<Rightarrow> real" where
  "quadratic_form det var1 var2 cov d1 d2 =
     (var2 * d1\<^sup>2 - 2 * cov * d1 * d2 + var1 * d2\<^sup>2) / det"

text \<open>\<^verbatim>\<open>k_post[num1, num2]\<close>: both indices are loop counters, never negative.\<close>

definition k_post_at :: "mat \<Rightarrow> nat \<Rightarrow> nat \<Rightarrow> error + real" where
  "k_post_at k_post r c =
     (if r < length k_post \<and> c < length (k_post ! r) then Inr (k_post ! r ! c)
      else Inl IndexError)"

text \<open>An arithmetic operation on two one-dimensional arrays: equal lengths, or one of
  them of length one, which is broadcast.\<close>

definition broadcast2 :: "(real \<Rightarrow> real \<Rightarrow> real) \<Rightarrow> vec \<Rightarrow> vec \<Rightarrow> error + vec" where
  "broadcast2 f xs ys =
     (if length xs = length ys then Inr (map2 f xs ys)
      else if length ys = 1 then Inr (map (\<lambda>x. f x (hd ys)) xs)
      else if length xs = 1 then Inr (map (f (hd xs)) ys)
      else Inl ValueError)"

text \<open>
  The two loops of \<^verbatim>\<open>_calculate_p_yhf_var\<close>:
  \<^verbatim>\<open>
  yhf_pdf_grid = np.zeros((points.shape[0],))
  i = 1
  for num1, (mean1, var1) in enumerate(zip(f_mean_pred, yhf_var_pred)):
      for num2, (mean2, var2) in enumerate(
          zip(f_mean_pred[num1 + 1 :], yhf_var_pred[num1 + 1 :])
      ):
          num2 = num1 + num2
          covariance = k_post[num1, num2]
          ...
          yhf_pdf_grid += np.exp(args)
          i = i + 1
          self.p_yhf_var = 1 / (i - 1) * yhf_pdf_grid - 0.9995 * self.p_yhf_mean ** 2
  \<close>
  The state of the loops is \<open>yhf_pdf_grid\<close>, the counter \<open>i\<close> and the attribute
  \<open>p_yhf_var\<close>, which is assigned in the inner loop and keeps its former value when there
  is no pair. \<open>p_yhf_mean\<close> is \<open>None\<close> until the posterior mean has been computed.
\<close>

definition p_yhf_var_inner_body ::
  "vec \<Rightarrow> vec option \<Rightarrow> mat \<Rightarrow> nat \<Rightarrow> real \<Rightarrow> real \<Rightarrow> nat \<times> real \<times> real \<Rightarrow>
   vec \<times> nat \<times> vec option \<Rightarrow> error + vec \<times> nat \<times> vec option" where
  "p_yhf_var_inner_body support p_mean k_post num1 mean1 var1 =
     (\<lambda>(num2_enum, mean2, var2) (yhf_pdf_grid, i, p_var).
        let num2 = num1 + num2_enum in
        bind_err (k_post_at k_post num1 num2) (\<lambda>covariance.
        bind_err (pair_contribution support mean1 var1 mean2 var2 covariance) (\<lambda>contribution.
          let yhf_pdf_grid' = map2 (+) yhf_pdf_grid contribution;
              i' = i + 1
          in case p_mean of
               None \<Rightarrow> Inl TypeError
             | Some pm \<Rightarrow>
                 bind_err (broadcast2 (\<lambda>g p. 1 / real (i' - 1) * g - 9995 / 10000 * p\<^sup>2)
                             yhf_pdf_grid' pm)
                   (\<lambda>v. Inr (yhf_pdf_grid', i', Some v)))))"

definition calculate_p_yhf_var_loops ::
  "vec \<Rightarrow> vec option \<Rightarrow> vec \<Rightarrow> vec \<Rightarrow> mat \<Rightarrow> vec option \<Rightarrow> error + vec option" where
  "calculate_p_yhf_var_loops support p_mean f_mean_pred yhf_var_pred k_post p_var =
     bind_err
       (fold_err
          (\<lambda>(num1, mean1, var1).
             fold_err (p_yhf_var_inner_body support p_mean k_post num1 mean1 var1)
               (enumerate 0 (zip (drop (num1 + 1) f_mean_pred) (drop (num1 + 1) yhf_var_pred))))
          (enumerate 0 (zip f_mean_pred yhf_var_pred))
          (replicate (length support) 0, 1, p_var))
       (\<lambda>(yhf_pdf_grid, i, p_var'). Inr p_var')"

text \<open>
  The posterior variance as the specification words it: for every pair \<open>i < j\<close> of samples
  the bivariate normal density with means \<open>(m\<^sub>i, m\<^sub>j)\<close>, variances \<open>(v\<^sub>i, v\<^sub>j)\<close> and the
  posterior covariance \<open>k_post[i, j]\<close> of the two samples, at the point \<open>(s, s)\<close>; the sum is
  divided by the number of pairs, and \<open>0.9995 * p_yhf_mean(s)\<^sup>2\<close> is subtracted.
\<close>

definition bivariate_normal_density ::
  "real \<Rightarrow> real \<Rightarrow> real \<Rightarrow> real \<Rightarrow> real \<Rightarrow> real \<Rightarrow> real \<Rightarrow> real" where
  "bivariate_normal_density x y m1 m2 v1 v2 cov =
     exp (- (1 / 2) * quadratic_form (v1 * v2 - cov\<^sup>2) v1 v2 cov (x - m1) (y - m2))
       / (2 * pi * sqrt (v1 * v2 - cov\<^sup>2))"

definition sample_pairs :: "nat \<Rightarrow> (nat \<times> nat) list" where
  "sample_pairs N = concat (map (\<lambda>i. map (\<lambda>j. (i, j)) [i + 1..<N]) [0..<N])"

definition spec_p_yhf_var :: "vec \<Rightarrow> vec \<Rightarrow> vec \<Rightarrow> vec \<Rightarrow> mat \<Rightarrow> vec" where
  "spec_p_yhf_var support p_mean m_f var_y k_post =
     map2 (\<lambda>s p.
        sum_list (map (\<lambda>(i, j). bivariate_normal_density s s (m_f ! i) (m_f ! j)
                                  (var_y ! i) (var_y ! j) (k_post ! i ! j))
                     (sample_pairs (length m_f)))
          / real (length (sample_pairs (length m_f)))
        - 9995 / 10000 * p\<^sup>2)
       support p_mean"

section \<open>The BMFMC model\<close>

subsection \<open>State\<close>

text \<open>
  The dictionary \<^verbatim>\<open>settings_probab_mapping\<close>, with the keys the feature strategies read.
  A key that may be absent is an option; reading an absent key raises \<^verbatim>\<open>KeyError\<close>.
\<close>

record settings =
  features_config :: string
  num_features :: "int option"
  X_cols :: "int list option"

text \<open>The keys \<^verbatim>\<open>"LF{}".format(n)\<close> and \<^verbatim>\<open>"Feat{}".format(n)\<close> of the variables
  dictionary.\<close>

datatype var_key = LF_key nat | Feat_key int

text \<open>
  The class \<^verbatim>\<open>BmfmcInterface\<close> is not part of the sources at hand. Its object is a value
  of a type \<open>'i\<close>, and its methods are the fields of \<open>interface_ops\<close>:
  \<^verbatim>\<open>build_approximation\<close> returns the trained object, \<^verbatim>\<open>map\<close> the predictive mean and
  variance at the given points, \<^verbatim>\<open>map(..., support='f', full_cov=True)\<close> the mean and the
  posterior covariance matrix, \<^verbatim>\<open>cross_validate\<close> the flattened predictions. The callers
  hand attributes over as they are, so an array argument may be \<^verbatim>\<open>None\<close>.
\<close>

record 'i interface_ops =
  iface_build_approximation :: "'i \<Rightarrow> mat option \<Rightarrow> mat option \<Rightarrow> error + 'i"
  iface_map :: "'i \<Rightarrow> mat \<Rightarrow> error + vec \<times> vec"
  iface_map_full_cov :: "'i \<Rightarrow> mat \<Rightarrow> error + vec \<times> mat"
  iface_is_initiliazed :: "'i \<Rightarrow> bool"
  iface_cross_validate :: "'i \<Rightarrow> mat option \<Rightarrow> mat option \<Rightarrow> nat \<Rightarrow> error + vec"

text \<open>
  The attributes of \<^verbatim>\<open>BMFMCModel\<close> that the methods below read or write. An attribute
  that \<^verbatim>\<open>__init__\<close> sets to \<^verbatim>\<open>None\<close> is an option. \<open>training_indices\<close> is written by
  the iterator before the model runs; it is the list of indices it holds from then on, and
  the \<^verbatim>\<open>None\<close> that \<^verbatim>\<open>__init__\<close> leaves there (indexing with it would add an axis to
  \<open>Z_mc\<close>) is not a value of the field: the record starts with the empty list.
  \<open>variables\<close> is the class attribute \<^verbatim>\<open>Model.variables\<close>, as the dictionary it is built
  from.
\<close>

record 'i bmfmc_model =
  interface :: "'i option"
  settings_probab_mapping :: settings
  subordinate_model :: "(mat \<Rightarrow> error + vec) option"
  eval_fit :: string
  error_measures :: "string list"
  active_learning :: bool
  X_train :: "mat option"
  Y_HF_train :: "mat option"
  Y_LFs_train :: "mat option"
  X_mc :: "mat option"
  Y_LFs_mc :: "mat option"
  Y_HF_mc :: "vec option"
  gammas_ext_mc :: "mat option"
  gammas_ext_train :: "mat option"
  Z_train :: "mat option"
  Z_mc :: "mat option"
  m_f_mc :: "vec option"
  var_y_mc :: "vec option"
  f_mean_train :: "vec option"
  y_pdf_support :: vec
  p_yhf_mean :: "vec option"
  p_yhf_var :: "vec option"
  predictive_var_bool :: bool
  training_indices :: "int list"
  variables :: "(var_key \<times> vec) list"

text \<open>The object that \<^verbatim>\<open>BMFMCModel.__init__\<close> creates: the arguments are stored, and all
  data attributes are \<^verbatim>\<open>None\<close>.\<close>

definition init_bmfmc_model ::
  "settings \<Rightarrow> string \<Rightarrow> string list \<Rightarrow> bool \<Rightarrow> bool \<Rightarrow> vec \<Rightarrow>
   (mat \<Rightarrow> error + vec) option \<Rightarrow> 'i bmfmc_model" where
  "init_bmfmc_model settings_arg eval_fit_arg error_measures_arg active_learning_arg
       predictive_var_bool_arg y_pdf_support_arg subordinate_model_arg =
     \<lparr>interface = None,
      settings_probab_mapping = settings_arg,
      subordinate_model = subordinate_model_arg,
      eval_fit = eval_fit_arg,
      error_measures = error_measures_arg,
      active_learning = active_learning_arg,
      X_train = None, Y_HF_train = None, Y_LFs_train = None,
      X_mc = None, Y_LFs_mc = None, Y_HF_mc = None,
      gammas_ext_mc = None, gammas_ext_train = None,
      Z_train = None, Z_mc = None,
      m_f_mc = None, var_y_mc = None, f_mean_train = None,
      y_pdf_support = y_pdf_support_arg,
      p_yhf_mean = None, p_yhf_var = None,
      predictive_var_bool = predictive_var_bool_arg,
      training_indices = [],
      variables = []\<rparr>"

text \<open>A method ends by returning, or by raising with the object in the state it had
  reached.\<close>

datatype 's outcome = Raised error 's | Returned 's

definition and_then :: "'s outcome \<Rightarrow> ('s \<Rightarrow> 's outcome) \<Rightarrow> 's outcome" where
  "and_then r f = (case r of Raised e s \<Rightarrow> Raised e s | Returned s \<Rightarrow> f s)"

definition try_with :: "'s \<Rightarrow> error + 'a \<Rightarrow> ('a \<Rightarrow> 's outcome) \<Rightarrow> 's outcome" where
  "try_with s m k = (case m of Inl e \<Rightarrow> Raised e s | Inr v \<Rightarrow> k v)"

definition require :: "error \<Rightarrow> 'a option \<Rightarrow> error + 'a" where
  "require e x = (case x of None \<Rightarrow> Inl e | Some v \<Rightarrow> Inr v)"

fun fold_outcome :: "('a \<Rightarrow> 's \<Rightarrow> 's outcome) \<Rightarrow> 'a list \<Rightarrow> 's \<Rightarrow> 's outcome" where
  "fold_outcome f [] s = Returned s"
| "fold_outcome f (x # xs) s = and_then (f x s) (fold_outcome f xs)"

fun map_err :: "('a \<Rightarrow> error + 'b) \<Rightarrow> 'a list \<Rightarrow> error + 'b list" where
  "map_err f [] = Inr []"
| "map_err f (x # xs) = bind_err (f x) (\<lambda>y. bind_err (map_err f xs) (\<lambda>ys. Inr (y # ys)))"

subsection \<open>Array access\<close>

text \<open>\<^verbatim>\<open>M.shape[1]\<close> of a two-dimensional array given by its rows.\<close>

definition shape1 :: "mat \<Rightarrow> nat" where
  "shape1 M = (case M of [] \<Rightarrow> 0 | r # _ \<Rightarrow> length r)"

text \<open>\<^verbatim>\<open>M[:, idx_vec]\<close> with a list of column indices.\<close>

definition select_columns :: "mat \<Rightarrow> int list \<Rightarrow> error + mat" where
  "select_columns M idx_vec = map_err (\<lambda>row. map_err (py_index row) idx_vec) M"

text \<open>\<^verbatim>\<open>M[indices, :]\<close> with a list of row indices.\<close>

definition select_rows :: "mat \<Rightarrow> int list \<Rightarrow> error + mat" where
  "select_rows M indices = map_err (py_index M) indices"

subsection \<open>High-fidelity training data\<close>

text \<open>
  \<^verbatim>\<open>
  def get_hf_training_data(self):
      if self.X_train is None:
          raise ValueError(...)
      if self.Y_HF_mc is not None:
          index_rows = [
              np.where(np.all(self.X_mc == self.X_train[i, :], axis=1))[0][0]
              for i, _ in enumerate(self.X_train[:, 0])
          ]
          self.Y_HF_train = np.atleast_2d(
              np.asarray([self.Y_HF_mc[index] for index in index_rows])
          ).T
      else:
          raise NotImplementedError(...)
  \<close>
  \<open>X_mc\<close> and \<open>X_train\<close> hold samples of the same parameters, so their rows have the same
  length and \<open>np.all(X_mc == row, axis=1)\<close> marks the rows of \<open>X_mc\<close> that equal \<open>row\<close>.
  \<open>np.where(...)[0]\<close> lists the marked indices in increasing order, and \<open>[0]\<close> raises
  \<^verbatim>\<open>IndexError\<close> on an empty list. \<open>X_train[:, 0]\<close> needs a first column. \<open>X_mc\<close> is
  read once for every training row; the comparison with \<^verbatim>\<open>None\<close> has no second axis.
\<close>

definition np_where_rows_equal :: "mat \<Rightarrow> vec \<Rightarrow> nat list" where
  "np_where_rows_equal x_mc row = filter (\<lambda>j. x_mc ! j = row) [0..<length x_mc]"

definition first_matching_index :: "mat \<Rightarrow> vec \<Rightarrow> error + nat" where
  "first_matching_index x_mc row =
     (case np_where_rows_equal x_mc row of [] \<Rightarrow> Inl IndexError | j # _ \<Rightarrow> Inr j)"

definition get_hf_training_data :: "'i bmfmc_model \<Rightarrow> 'i bmfmc_model outcome" where
  "get_hf_training_data self =
     (case X_train self of
        None \<Rightarrow> Raised ValueError self
      | Some x_train \<Rightarrow>
          (case Y_HF_mc self of
             None \<Rightarrow> Raised NotImplementedError self
           | Some y_hf_mc \<Rightarrow>
               try_with self (if \<exists>r \<in> set x_train. r = [] then Inl IndexError else Inr ()) (\<lambda>_.
               try_with self
                 (map_err (\<lambda>row. bind_err (require ValueError (X_mc self))
                                   (\<lambda>x_mc. first_matching_index x_mc row)) x_train)
                 (\<lambda>index_rows.
               try_with self (map_err (\<lambda>index. py_index y_hf_mc (int index)) index_rows) (\<lambda>ys.
                 Returned (self\<lparr>Y_HF_train := Some (map (\<lambda>y. [y]) ys)\<rparr>))))))"

subsection \<open>Accuracy of the mapping by cross-validation\<close>

text \<open>
  \<^verbatim>\<open>compute_error(y_act, y_pred, measure)\<close> forms \<^verbatim>\<open>y_act - y_pred\<close> in the branch of a known
  measure and reduces it over all entries. The difference of two two-dimensional arrays
  broadcasts along the rows and along the columns: equal extents, or an extent of one.
  The mean of an empty array is \<open>nan\<close>; the maximum of an empty array raises.
\<close>

definition np_subtract :: "mat \<Rightarrow> mat \<Rightarrow> error + mat" where
  "np_subtract A B =
     bind_err (broadcast_pairs A B) (map_err (\<lambda>(a, b). broadcast2 (-) a b))"

definition compute_error :: "mat \<Rightarrow> mat \<Rightarrow> string \<Rightarrow> error + real" where
  "compute_error y_act y_pred measure_name =
     (let difference = bind_err (np_subtract y_act y_pred) (\<lambda>d. Inr (concat d)) in
      if measure_name = ''sum_squared'' then
        bind_err difference (\<lambda>d. Inr (sum_list (map (\<lambda>x. x\<^sup>2) d)))
      else if measure_name = ''mean_squared'' then
        bind_err difference (\<lambda>d.
          if d = [] then Inl NotFinite
          else Inr (sum_list (map (\<lambda>x. x\<^sup>2) d) / real (length d)))
      else if measure_name = ''root_mean_squared'' then
        bind_err difference (\<lambda>d.
          if d = [] then Inl NotFinite
          else Inr (sqrt (sum_list (map (\<lambda>x. x\<^sup>2) d) / real (length d))))
      else if measure_name = ''sum_abs'' then
        bind_err difference (\<lambda>d. Inr (sum_list (map abs d)))
      else if measure_name = ''mean_abs'' then
        bind_err difference (\<lambda>d.
          if d = [] then Inl NotFinite else Inr (sum_list (map abs d) / real (length d)))
      else if measure_name = ''abs_max'' then
        bind_err difference (\<lambda>d. np_max [map abs d])
      else Inl NotImplementedError)"

fun compute_error_measures :: "mat \<Rightarrow> mat \<Rightarrow> string list \<Rightarrow> error + (string \<rightharpoonup> real)" where
  "compute_error_measures y_act y_pred [] = Inr Map.empty"
| "compute_error_measures y_act y_pred (measure_name # measure_names) =
     bind_err (compute_error y_act y_pred measure_name) (\<lambda>e.
     bind_err (compute_error_measures y_act y_pred measure_names) (\<lambda>rest.
       Inr (rest(measure_name \<mapsto> e))))"

text \<open>
  \<^verbatim>\<open>
  def eval_surrogate_accuracy_cv(self, Z, Y_HF, k_fold, measures):
      if not self.interface.is_initiliazed():
          raise RuntimeError("Cannot compute accuracy of an uninitialized model")
      response_cv = self.interface.cross_validate(Z, Y_HF, k_fold)
      y_pred = np.reshape(np.array(response_cv), (-1, 1))
      error_info = compute_error_measures(Y_HF, y_pred, measures)
      return error_info
  \<close>
  Before \<^verbatim>\<open>evaluate\<close> has created the interface object the attribute is \<^verbatim>\<open>None\<close>, and the
  method call on it raises \<^verbatim>\<open>AttributeError\<close>.
\<close>

definition eval_surrogate_accuracy_cv ::
  "'i interface_ops \<Rightarrow> 'i bmfmc_model \<Rightarrow> mat option \<Rightarrow> mat option \<Rightarrow> nat \<Rightarrow>
   string list \<Rightarrow> error + (string \<rightharpoonup> real)" where
  "eval_surrogate_accuracy_cv ops self Z Y_HF k_fold measure_names =
     (case interface self of
        None \<Rightarrow> Inl AttributeError
      | Some iface \<Rightarrow>
          if \<not> iface_is_initiliazed ops iface then Inl RuntimeError
          else bind_err (iface_cross_validate ops iface Z Y_HF k_fold) (\<lambda>response_cv.
               bind_err (require TypeError Y_HF) (\<lambda>y_act.
                 let y_pred = map (\<lambda>y. [y]) response_cv
                 in compute_error_measures y_act y_pred measure_names)))"

subsection \<open>Feature strategies of the BMFMC model\<close>

text \<open>
  \<^verbatim>\<open>
  def update_model_variables(Y_LFs_train, Z_mc):
      uncertain_parameters = {"random_variables": {}}
      num_lfs = Y_LFs_train.shape[1]
      for counter, value in enumerate(Z_mc.T):
          if counter < num_lfs - 1:
              key = "LF{}".format(counter)
          else:
              key = "Feat{}".format(counter - num_lfs - 1)
          dummy = {key: {"value": value}}
          uncertain_parameters["random_variables"].update(dummy)
      Model.variables = [Variables(uncertain_parameters)]
  \<close>
\<close>

definition update_model_variables :: "'i bmfmc_model \<Rightarrow> 'i bmfmc_model outcome" where
  "update_model_variables self =
     try_with self (require AttributeError (Y_LFs_train self)) (\<lambda>y_lfs_train.
     try_with self (require AttributeError (Z_mc self)) (\<lambda>z_mc.
       let num_lfs = int (shape1 y_lfs_train);
           entries = map (\<lambda>(counter, value).
                            (if int counter < num_lfs - 1 then LF_key counter
                             else Feat_key (int counter - num_lfs - 1), value))
                         (enumerate 0 (transpose z_mc))
       in Returned (self\<lparr>variables := entries\<rparr>)))"

text \<open>
  One round of the loop of \<^verbatim>\<open>calculate_extended_gammas\<close>:
  \<^verbatim>\<open>
  Y_LFS_mc_stdized = StandardScaler().fit_transform(self.Y_LFs_mc)
  corr_coef_unnorm = np.abs(np.dot(x_iter_test.T, Y_LFS_mc_stdized))
  select_bool = corr_coef_unnorm == np.max(corr_coef_unnorm)
  test_iter = np.dot(x_iter_test, select_bool)
  features_test = _linear_scale_a_to_b(test_iter, self.Y_LFs_mc)
  self.gammas_ext_mc = np.hstack((self.gammas_ext_mc, features_test))
  \<close>
  The plot of the scores in the first round has no effect on the object. The Boolean
  array \<open>select_bool\<close> enters the product as zeros and ones.
\<close>

definition correlation_scores :: "mat \<Rightarrow> mat option \<Rightarrow> error + mat" where
  "correlation_scores x_iter_test y_lfs_mc =
     bind_err (require ValueError y_lfs_mc) (\<lambda>y.
     bind_err (StandardScaler_fit_transform y) (\<lambda>Y_LFS_mc_stdized.
     bind_err (np_dot (transpose x_iter_test) Y_LFS_mc_stdized) (\<lambda>prod.
       Inr (map (map abs) prod))))"

definition selection_mask :: "mat \<Rightarrow> mat option \<Rightarrow> error + bool list list" where
  "selection_mask x_iter_test y_lfs_mc =
     bind_err (correlation_scores x_iter_test y_lfs_mc) (\<lambda>corr_coef_unnorm.
     bind_err (np_max corr_coef_unnorm) (\<lambda>highest.
       Inr (map (map (\<lambda>score. score = highest)) corr_coef_unnorm)))"

definition extended_gammas_round :: "mat \<Rightarrow> nat \<Rightarrow> 'i bmfmc_model \<Rightarrow> 'i bmfmc_model outcome" where
  "extended_gammas_round x_iter_test counter self =
     try_with self (selection_mask x_iter_test (Y_LFs_mc self)) (\<lambda>select_bool.
     try_with self (np_dot x_iter_test (map (map of_bool) select_bool)) (\<lambda>test_iter.
     try_with self (bind_err (require ValueError (Y_LFs_mc self)) (linear_scale_a_to_b test_iter))
       (\<lambda>features_test.
     try_with self (bind_err (require ValueError (gammas_ext_mc self))
                      (\<lambda>g. np_hstack g features_test)) (\<lambda>g.
       Returned (self\<lparr>gammas_ext_mc := Some g\<rparr>)))))"

text \<open>
  \<^verbatim>\<open>
  def calculate_extended_gammas(self):
      x_red = self.input_dim_red()
      x_iter_test = x_red
      self.gammas_ext_mc = np.empty((x_iter_test.shape[0], 0))
      for counter in range(x_red.shape[1]):
          ...
  \<close>
  The reduced input representation \<open>x_red\<close> is an argument here. The loop body never
  assigns \<open>x_iter_test\<close>.
\<close>

definition calculate_extended_gammas :: "mat \<Rightarrow> 'i bmfmc_model \<Rightarrow> 'i bmfmc_model outcome" where
  "calculate_extended_gammas x_red self =
     (let x_iter_test = x_red
      in fold_outcome (extended_gammas_round x_iter_test) [0..<shape1 x_red]
           (self\<lparr>gammas_ext_mc := Some (replicate (length x_iter_test) [])\<rparr>))"

text \<open>
  \<^verbatim>\<open>
  def update_probabilistic_mapping_with_features(self):
      gamma_mc = self.gammas_ext_mc[:, 0 : self.settings_probab_mapping['num_features']]
      self.Z_mc = np.hstack([self.Y_LFs_mc, gamma_mc])
      self.Z_train = self.Z_mc[self.training_indices, :]
      self.interface.build_approximation(self.Z_train, self.Y_HF_train)
      self.m_f_mc, self.var_y_mc = self.interface.map(self.Z_mc.T)
      self.f_mean_train, _ = self.interface.map(self.Z_train.T)
  \<close>
\<close>

definition update_probabilistic_mapping_with_features ::
  "'i interface_ops \<Rightarrow> 'i bmfmc_model \<Rightarrow> 'i bmfmc_model outcome" where
  "update_probabilistic_mapping_with_features ops self =
     try_with self (require KeyError (num_features (settings_probab_mapping self))) (\<lambda>k.
     try_with self (require TypeError (gammas_ext_mc self)) (\<lambda>g.
       let gamma_mc = map (\<lambda>row. py_slice_to row k) g in
     try_with self (bind_err (require ValueError (Y_LFs_mc self)) (\<lambda>y. np_hstack y gamma_mc))
       (\<lambda>z_mc.
       let self1 = self\<lparr>Z_mc := Some z_mc\<rparr> in
     try_with self1 (select_rows z_mc (training_indices self1)) (\<lambda>z_train.
       let self2 = self1\<lparr>Z_train := Some z_train\<rparr> in
     try_with self2 (require AttributeError (interface self2)) (\<lambda>iface.
     try_with self2 (iface_build_approximation ops iface (Some z_train) (Y_HF_train self2))
       (\<lambda>iface'.
       let self3 = self2\<lparr>interface := Some iface'\<rparr> in
     try_with self3 (iface_map ops iface' (transpose z_mc)) (\<lambda>(m, v).
       let self4 = self3\<lparr>m_f_mc := Some m, var_y_mc := Some v\<rparr> in
     try_with self4 (iface_map ops iface' (transpose z_train)) (\<lambda>(m_train, _).
       Returned (self4\<lparr>f_mean_train := Some m_train\<rparr>)))))))))"

text \<open>The branch \<^verbatim>\<open>"man_features"\<close> of \<^verbatim>\<open>set_feature_strategy\<close>.\<close>

definition man_features_strategy :: "'i bmfmc_model \<Rightarrow> 'i bmfmc_model outcome" where
  "man_features_strategy self =
     try_with self (require KeyError (X_cols (settings_probab_mapping self))) (\<lambda>idx_vec.
     try_with self (bind_err (require TypeError (X_train self)) (\<lambda>x. select_columns x idx_vec))
       (\<lambda>g_train.
       let self1 = self\<lparr>gammas_ext_train := Some g_train\<rparr> in
     try_with self1 (bind_err (require TypeError (X_mc self1)) (\<lambda>x. select_columns x idx_vec))
       (\<lambda>g_mc.
       let self2 = self1\<lparr>gammas_ext_mc := Some g_mc\<rparr> in
     try_with self2 (bind_err (require ValueError (Y_LFs_train self2)) (\<lambda>y. np_hstack y g_train))
       (\<lambda>z_train.
       let self3 = self2\<lparr>Z_train := Some z_train\<rparr> in
     try_with self3 (bind_err (require ValueError (Y_LFs_mc self3)) (\<lambda>y. np_hstack y g_mc))
       (\<lambda>z_mc.
       Returned (self3\<lparr>Z_mc := Some z_mc\<rparr>))))))"

text \<open>
  \<^verbatim>\<open>
  def set_feature_strategy(self):
      if self.settings_probab_mapping['features_config'] == "man_features":
          idx_vec = self.settings_probab_mapping['X_cols']
          self.gammas_ext_train = np.atleast_2d(self.X_train[:, idx_vec])
          self.gammas_ext_mc = np.atleast_2d(self.X_mc[:, idx_vec])
          self.Z_train = np.hstack([self.Y_LFs_train, self.gammas_ext_train])
          self.Z_mc = np.hstack([self.Y_LFs_mc, self.gammas_ext_mc])
      elif self.settings_probab_mapping['features_config'] == "opt_features":
          if self.settings_probab_mapping['num_features'] < 1:
              raise ValueError(...)
          self.update_probabilistic_mapping_with_features()
      elif self.settings_probab_mapping['features_config'] == "no_features":
          self.Z_train = self.Y_LFs_train
          self.Z_mc = self.Y_LFs_mc
      else:
          raise ValueError("Feature space method specified in input file is unknown!")
      update_model_variables(self.Y_LFs_train, self.Z_mc)
  \<close>
\<close>

definition set_feature_strategy :: "'i interface_ops \<Rightarrow> 'i bmfmc_model \<Rightarrow> 'i bmfmc_model outcome" where
  "set_feature_strategy ops self =
     and_then
       (if features_config (settings_probab_mapping self) = ''man_features'' then
          man_features_strategy self
        else if features_config (settings_probab_mapping self) = ''opt_features'' then
          try_with self (require KeyError (num_features (settings_probab_mapping self))) (\<lambda>k.
            if k < 1 then Raised ValueError self
            else update_probabilistic_mapping_with_features ops self)
        else if features_config (settings_probab_mapping self) = ''no_features'' then
          Returned (self\<lparr>Z_train := Y_LFs_train self, Z_mc := Y_LFs_mc self\<rparr>)
        else Raised ValueError self)
       update_model_variables"

text \<open>
  \<^verbatim>\<open>
  def build_approximation(self, approx_case=True):
      self.get_hf_training_data()
      if approx_case is True:
          self.set_feature_strategy()
          self.interface.build_approximation(self.Z_train, self.Y_HF_train)
      else:
          self.interface.build_approximation(self.Y_LFs_train, self.Y_HF_train)
      if self.eval_fit == "kfold":
          error_measures = self.eval_surrogate_accuracy_cv(
              self.Z_train, self.Y_HF_train, k_fold=5, measures=self.error_measures)
          ...
      if self.active_learning is True:
          raise NotImplementedError(...)
  \<close>
\<close>

definition interface_build :: "'i interface_ops \<Rightarrow> mat option \<Rightarrow> 'i bmfmc_model \<Rightarrow> 'i bmfmc_model outcome" where
  "interface_build ops inputs self =
     try_with self (require AttributeError (interface self)) (\<lambda>iface.
     try_with self (iface_build_approximation ops iface inputs (Y_HF_train self)) (\<lambda>iface'.
       Returned (self\<lparr>interface := Some iface'\<rparr>)))"

definition build_approximation ::
  "'i interface_ops \<Rightarrow> bool \<Rightarrow> 'i bmfmc_model \<Rightarrow> 'i bmfmc_model outcome" where
  "build_approximation ops approx_case self0 =
     and_then (get_hf_training_data self0) (\<lambda>self1.
     and_then
       (if approx_case then
          and_then (set_feature_strategy ops self1) (\<lambda>s. interface_build ops (Z_train s) s)
        else interface_build ops (Y_LFs_train self1) self1) (\<lambda>self2.
     and_then
       (if eval_fit self2 = ''kfold'' then
          try_with self2
            (eval_surrogate_accuracy_cv ops self2 (Z_train self2) (Y_HF_train self2) 5
               (error_measures self2))
            (\<lambda>_. Returned self2)
        else Returned self2) (\<lambda>self3.
     if active_learning self3 then Raised NotImplementedError self3 else Returned self3)))"

subsection \<open>Posterior statistics on the object\<close>

text \<open>
  \<^verbatim>\<open>_calculate_p_yhf_mean\<close> reads \<open>var_y_mc\<close>, \<open>y_pdf_support\<close> and \<open>m_f_mc\<close> and assigns
  \<open>p_yhf_mean\<close>. \<^verbatim>\<open>_calculate_p_yhf_var\<close> first asks the interface for the full posterior
  covariance,
  \<^verbatim>\<open>_, k_post = self.interface.map(self.Z_mc.T, support='f', full_cov=True)\<close>,
  takes \<open>f_mean_pred\<close>, \<open>yhf_var_pred\<close> and \<open>k_post\<close> with the spacing \<open>1\<close>, that is all of
  them, and runs the two loops.
  \<^verbatim>\<open>
  def compute_pyhf_statistics(self):
      self._calculate_p_yhf_mean()
      if self.predictive_var_bool:
          self._calculate_p_yhf_var()
      else:
          self.p_yhf_var = None
  \<close>
\<close>

definition calculate_p_yhf_mean :: "'i bmfmc_model \<Rightarrow> 'i bmfmc_model outcome" where
  "calculate_p_yhf_mean self =
     try_with self (require TypeError (var_y_mc self)) (\<lambda>var_y.
     try_with self (require TypeError (m_f_mc self)) (\<lambda>m_f.
     try_with self (p_yhf_mean_on_support (y_pdf_support self) m_f var_y) (\<lambda>p.
       Returned (self\<lparr>p_yhf_mean := Some p\<rparr>))))"

definition calculate_p_yhf_var :: "'i interface_ops \<Rightarrow> 'i bmfmc_model \<Rightarrow> 'i bmfmc_model outcome" where
  "calculate_p_yhf_var ops self =
     try_with self (require AttributeError (interface self)) (\<lambda>iface.
     try_with self (require AttributeError (Z_mc self)) (\<lambda>z_mc.
     try_with self (iface_map_full_cov ops iface (transpose z_mc)) (\<lambda>(_, k_post).
     try_with self (require TypeError (m_f_mc self)) (\<lambda>f_mean_pred.
     try_with self (require TypeError (var_y_mc self)) (\<lambda>yhf_var_pred.
     try_with self (calculate_p_yhf_var_loops (y_pdf_support self) (p_yhf_mean self)
                      f_mean_pred yhf_var_pred k_post (p_yhf_var self)) (\<lambda>p_var.
       Returned (self\<lparr>p_yhf_var := p_var\<rparr>)))))))"

definition compute_pyhf_statistics :: "'i interface_ops \<Rightarrow> 'i bmfmc_model \<Rightarrow> 'i bmfmc_model outcome" where
  "compute_pyhf_statistics ops self =
     and_then (calculate_p_yhf_mean self) (\<lambda>s.
       if predictive_var_bool s then calculate_p_yhf_var ops s
       else Returned (s\<lparr>p_yhf_var := None\<rparr>))"

section \<open>The BMFIA iterator\<close>

text \<open>
  The attributes of \<^verbatim>\<open>BMFIAIterator\<close> that \<^verbatim>\<open>core_run\<close> reads or writes. The attributes
  \<open>X_train\<close>, \<open>Y_HF_train\<close>, \<open>Z_train\<close> and \<open>settings_probab_mapping\<close> carry the prefix
  \<open>it_\<close> here, the BMFMC model having attributes of the same names. \<^verbatim>\<open>core_run\<close> reads
  the shapes of \<open>X_train\<close> and of \<open>coords_experimental_data\<close>, so both are arrays when it
  runs. The two simulation models are functions from the sample batch to the flat array
  \<^verbatim>\<open>evaluate()['mean']\<close>; \<open>model_evaluations\<close> records, in order, which model has been
  evaluated. In the branch \<^verbatim>\<open>"man_features"\<close> the feature array has three axes.
\<close>

datatype fidelity = LF_model | HF_model

datatype ndarray = Arr2 mat | Arr3 "mat list"

record bmfia_iterator =
  it_X_train :: mat
  Y_LF_train :: "mat option"
  it_Y_HF_train :: "mat option"
  it_Z_train :: "ndarray option"
  it_settings_probab_mapping :: settings
  hf_model :: "mat \<Rightarrow> error + vec"
  lf_model :: "mat \<Rightarrow> error + vec"
  coords_experimental_data :: mat
  time_vec :: "vec option"
  y_obs_vec :: "vec option"
  gammas_train :: "mat option"
  model_evaluations :: "fidelity list"

text \<open>\<^verbatim>\<open>a.reshape(-1, c)\<close> of a flat array.\<close>

definition reshape_rows :: "vec \<Rightarrow> nat \<Rightarrow> error + mat" where
  "reshape_rows a c =
     (if c = 0 \<or> length a mod c \<noteq> 0 then Inl ValueError
      else Inr (map (\<lambda>r. take c (drop (r * c) a)) [0..<length a div c]))"

text \<open>
  \<^verbatim>\<open>
  def _evaluate_LF_model_for_X_train(self):
      self.lf_model.update_model_from_sample_batch(self.X_train)
      num_coords = self.coords_experimental_data.shape[0]
      self.Y_LF_train = self.lf_model.evaluate()['mean'].reshape(-1, num_coords)
  \<close>
  and the same for the HF model.
\<close>

definition evaluate_LF_model_for_X_train :: "bmfia_iterator \<Rightarrow> bmfia_iterator outcome" where
  "evaluate_LF_model_for_X_train self =
     (let num_coords = length (coords_experimental_data self);
          self1 = self\<lparr>model_evaluations := model_evaluations self @ [LF_model]\<rparr>
      in try_with self1 (lf_model self (it_X_train self)) (\<lambda>mean.
         try_with self1 (reshape_rows mean num_coords) (\<lambda>y.
           Returned (self1\<lparr>Y_LF_train := Some y\<rparr>))))"

definition evaluate_HF_model_for_X_train :: "bmfia_iterator \<Rightarrow> bmfia_iterator outcome" where
  "evaluate_HF_model_for_X_train self =
     (let num_coords = length (coords_experimental_data self);
          self1 = self\<lparr>model_evaluations := model_evaluations self @ [HF_model]\<rparr>
      in try_with self1 (hf_model self (it_X_train self)) (\<lambda>mean.
         try_with self1 (reshape_rows mean num_coords) (\<lambda>y.
           Returned (self1\<lparr>it_Y_HF_train := Some y\<rparr>))))"

text \<open>\<^verbatim>\<open>eval_model\<close> evaluates the LF model and then the HF model.\<close>

definition eval_model :: "bmfia_iterator \<Rightarrow> bmfia_iterator outcome" where
  "eval_model self = and_then (evaluate_LF_model_for_X_train self) evaluate_HF_model_for_X_train"

text \<open>
  The branch \<^verbatim>\<open>"man_features"\<close> of \<^verbatim>\<open>_set_feature_strategy\<close>:
  \<^verbatim>\<open>
  idx_vec = self.settings_probab_mapping['X_cols']
  if len(idx_vec) < 2:
      gammas_train = np.atleast_2d(self.X_train[:, idx_vec]).T
  else:
      gammas_train = np.atleast_2d(self.X_train[:, idx_vec])
  self.gammas_train = self.scaler_gamma.fit_transform(gammas_train.T).T
  z_lst = []
  for y in self.Y_LF_train.T:
      z_lst.append(np.hstack([np.atleast_2d(y).T, np.atleast_2d(self.gammas_train).T]))
  self.Z_train = np.array(z_lst).T
  \<close>
  The transpose of an array with three axes reverses the axes.
\<close>

definition transpose3 :: "mat list \<Rightarrow> mat list" where
  "transpose3 A = map transpose (transpose (map transpose A))"

definition bmfia_man_features :: "bmfia_iterator \<Rightarrow> bmfia_iterator outcome" where
  "bmfia_man_features self =
     try_with self (require KeyError (X_cols (it_settings_probab_mapping self))) (\<lambda>idx_vec.
     try_with self (select_columns (it_X_train self) idx_vec) (\<lambda>selected.
       let gammas_train0 = (if length idx_vec < 2 then transpose selected else selected) in
     try_with self (StandardScaler_fit_transform (transpose gammas_train0)) (\<lambda>scaled.
       let self1 = self\<lparr>gammas_train := Some (transpose scaled)\<rparr> in
     try_with self1 (require AttributeError (Y_LF_train self1)) (\<lambda>y_lf.
     try_with self1 (map_err (\<lambda>y. np_hstack (map (\<lambda>v. [v]) y) (transpose (transpose scaled)))
                       (transpose y_lf)) (\<lambda>z_lst.
       Returned (self1\<lparr>it_Z_train := Some (Arr3 (transpose3 z_lst))\<rparr>))))))"

text \<open>
  The branch \<^verbatim>\<open>"time_features"\<close>:
  \<^verbatim>\<open>
  time_repeat = int(self.coords_experimental_data.shape[0] / self.time_vec.size)
  self.time_vec = np.repeat(self.time_vec.reshape(-1, 1), repeats=time_repeat, axis=0)
  self.time_vec = self.time_vec / np.max(self.time_vec) * (
      np.max(self.y_obs_vec) - np.min(self.y_obs_vec)
  ) + np.min(self.y_obs_vec)
  self.Z_train = np.hstack([self.Y_LF_train, self.time_vec])
  \<close>
\<close>

definition bmfia_time_features :: "bmfia_iterator \<Rightarrow> bmfia_iterator outcome" where
  "bmfia_time_features self =
     try_with self (require AttributeError (time_vec self)) (\<lambda>t.
     try_with self (if length t = 0 then Inl ZeroDivisionError
                    else Inr (length (coords_experimental_data self) div length t))
       (\<lambda>time_repeat.
       let repeated = concat (map (replicate time_repeat) t);
           self1 = self\<lparr>time_vec := Some repeated\<rparr> in
     try_with self1 (np_max [repeated]) (\<lambda>max_t.
     try_with self1 (require TypeError (y_obs_vec self1)) (\<lambda>y_obs.
     try_with self1 (np_max [y_obs]) (\<lambda>max_y.
     try_with self1 (np_min [y_obs]) (\<lambda>min_y.
     try_with self1 (if max_t = 0 then Inl NotFinite
                     else Inr (map (\<lambda>x. x / max_t * (max_y - min_y) + min_y) repeated))
       (\<lambda>scaled.
       let self2 = self1\<lparr>time_vec := Some scaled\<rparr> in
     try_with self2 (bind_err (require ValueError (Y_LF_train self2))
                       (\<lambda>y. np_hstack y (map (\<lambda>v. [v]) scaled))) (\<lambda>z.
       Returned (self2\<lparr>it_Z_train := Some (Arr2 z)\<rparr>)))))))))"

text \<open>
  \<^verbatim>\<open>
  def _set_feature_strategy(self):
      self.coords_experimental_data = np.tile(
          self.coords_experimental_data, (self.X_train.shape[0], 1)
      )
      if self.settings_probab_mapping['features_config'] == "man_features":
          ...
      elif self.settings_probab_mapping['features_config'] == "opt_features":
          if self.settings_probab_mapping['num_features'] < 1:
              raise ValueError(...)
          self._update_probabilistic_mapping_with_features()
      elif self.settings_probab_mapping['features_config'] == "coord_features":
          self.Z_train = np.hstack([self.Y_LF_train, self.coords_experimental_data])
      elif self.settings_probab_mapping['features_config'] == "no_features":
          self.Z_train = self.Y_LF_train
      elif self.settings_probab_mapping['features_config'] == "time_features":
          ...
      else:
          raise IOError("Feature space method specified in input file is unknown!")

  def _update_probabilistic_mapping_with_features(self):
      raise NotImplementedError(...)
  \<close>
\<close>

definition bmfia_update_probabilistic_mapping_with_features ::
  "bmfia_iterator \<Rightarrow> bmfia_iterator outcome" where
  "bmfia_update_probabilistic_mapping_with_features self = Raised NotImplementedError self"

definition bmfia_set_feature_strategy :: "bmfia_iterator \<Rightarrow> bmfia_iterator outcome" where
  "bmfia_set_feature_strategy self0 =
     (let self = self0\<lparr>coords_experimental_data :=
                   concat (replicate (length (it_X_train self0)) (coords_experimental_data self0))\<rparr>;
          tag = features_config (it_settings_probab_mapping self)
      in if tag = ''man_features'' then bmfia_man_features self
         else if tag = ''opt_features'' then
           try_with self (require KeyError (num_features (it_settings_probab_mapping self))) (\<lambda>k.
             if k < 1 then Raised ValueError self
             else bmfia_update_probabilistic_mapping_with_features self)
         else if tag = ''coord_features'' then
           try_with self (bind_err (require ValueError (Y_LF_train self))
                            (\<lambda>y. np_hstack y (coords_experimental_data self))) (\<lambda>z.
             Returned (self\<lparr>it_Z_train := Some (Arr2 z)\<rparr>))
         else if tag = ''no_features'' then
           Returned (self\<lparr>it_Z_train := map_option Arr2 (Y_LF_train self)\<rparr>)
         else if tag = ''time_features'' then bmfia_time_features self
         else Raised IOError self)"

text \<open>
  \<^verbatim>\<open>
  def core_run(self):
      self.eval_model()
      self._set_feature_strategy()
      return self.Z_train, self.Y_HF_train
  \<close>
\<close>

definition core_run :: "bmfia_iterator \<Rightarrow> bmfia_iterator outcome" where
  "core_run self = and_then (eval_model self) bmfia_set_feature_strategy"

text \<open>The iterator that \<^verbatim>\<open>__init__\<close> creates.\<close>

definition init_bmfia_iterator ::
  "settings \<Rightarrow> (mat \<Rightarrow> error + vec) \<Rightarrow> (mat \<Rightarrow> error + vec) \<Rightarrow> mat \<Rightarrow> mat \<Rightarrow>
   vec option \<Rightarrow> vec option \<Rightarrow> bmfia_iterator" where
  "init_bmfia_iterator settings_arg hf_model_arg lf_model_arg x_train coords time_arg y_obs_arg =
     \<lparr>it_X_train = x_train, Y_LF_train = None, it_Y_HF_train = None, it_Z_train = None,
      it_settings_probab_mapping = settings_arg,
      hf_model = hf_model_arg, lf_model = lf_model_arg,
      coords_experimental_data = coords,
      time_vec = time_arg, y_obs_vec = y_obs_arg,
      gammas_train = None, model_evaluations = []\<rparr>"

section \<open>Example objects\<close>

text \<open>
  An instance of the interface for trying the methods on concrete objects: the object is
  the flag that says whether \<^verbatim>\<open>build_approximation\<close> has been called, predictions are
  zero with unit variance, and cross-validation returns the outputs it was given.
\<close>

definition flag_interface :: "bool interface_ops" where
  "flag_interface =
     \<lparr>iface_build_approximation = (\<lambda>built Z Y. Inr True),
      iface_map = (\<lambda>built Z. Inr (replicate (shape1 Z) 0, replicate (shape1 Z) 1)),
      iface_map_full_cov =
        (\<lambda>built Z. Inr (replicate (shape1 Z) 0,
                          map (\<lambda>i. map (\<lambda>j. if i = j then 1 else 0) [0..<shape1 Z])
                              [0..<shape1 Z])),
      iface_is_initiliazed = (\<lambda>built. built),
      iface_cross_validate =
        (\<lambda>built Z Y k_fold. case Y of None \<Rightarrow> Inl TypeError | Some y \<Rightarrow> Inr (concat y))\<rparr>"

definition unbuilt_example :: "bool bmfmc_model" where
  "unbuilt_example =
     (init_bmfmc_model \<lparr>features_config = ''no_features'', num_features = None, X_cols = None\<rparr>
        ''kfold'' [''sum_squared''] False False [0] None)
     \<lparr>interface := Some False\<rparr>"

text \<open>An object for trying the lookup: two training rows, each of them twice in the
  Monte-Carlo pool.\<close>

definition lookup_example :: "unit bmfmc_model" where
  "lookup_example =
     (init_bmfmc_model \<lparr>features_config = ''no_features'', num_features = None, X_cols = None\<rparr>
        ''none'' [] False False [0] None)
     \<lparr>X_train := Some [[5, 6], [1, 2]], X_mc := Some [[5, 6], [1, 2], [5, 6], [1, 2]]\<rparr>"

text \<open>Objects for trying the feature strategies: an iterator with two training samples and
  one coordinate, whose models return the row sums and the first column; and a BMFMC model
  with four Monte-Carlo samples of one LF output.\<close>

definition example_iterator :: "string \<Rightarrow> int option \<Rightarrow> bmfia_iterator" where
  "example_iterator tag k =
     init_bmfia_iterator \<lparr>features_config = tag, num_features = k, X_cols = None\<rparr>
       (\<lambda>X. Inr (map sum_list X)) (\<lambda>X. Inr (map hd X)) [[1, 2], [3, 4]] [[0, 0]] None None"

definition example_model :: "string \<Rightarrow> int option \<Rightarrow> bool bmfmc_model" where
  "example_model tag k =
     (init_bmfmc_model \<lparr>features_config = tag, num_features = k, X_cols = None\<rparr>
        ''none'' [] False False [0] None)
     \<lparr>interface := Some False,
      Y_LFs_mc := Some [[1], [1], [3], [3]],
      Y_LFs_train := Some [[1], [3]],
      Y_HF_train := Some [[2], [4]],
      training_indices := [0, 2]\<rparr>"

text \<open>A reduced input representation of four samples in two dimensions, standardised
  along each dimension; with the LF outputs \<open>1, 1, 3, 3\<close> the first dimension has the score
  \<open>4\<close> and the second the score \<open>0\<close>.\<close>

definition x_red_example :: mat where
  "x_red_example = [[-1, -1], [-1, 1], [1, -1], [1, 1]]"

text \<open>
  An interface with fixed predictions, and a model after the mapping has been evaluated
  on two Monte-Carlo samples: both predictive means are \<open>0\<close> and both predictive
  variances \<open>1\<close>; the posterior covariance of the mapping has the variances \<open>0.6\<close> and the
  covariance \<open>0\<close>. The predictive-variance flag is set.
\<close>

definition fixed_interface :: "vec \<Rightarrow> vec \<Rightarrow> mat \<Rightarrow> bool interface_ops" where
  "fixed_interface m v k_post =
     \<lparr>iface_build_approximation = (\<lambda>built Z Y. Inr True),
      iface_map = (\<lambda>built Z. Inr (m, v)),
      iface_map_full_cov = (\<lambda>built Z. Inr (m, k_post)),
      iface_is_initiliazed = (\<lambda>built. built),
      iface_cross_validate =
        (\<lambda>built Z Y k_fold. case Y of None \<Rightarrow> Inl TypeError | Some y \<Rightarrow> Inr (concat y))\<rparr>"

definition two_sample_model :: "bool bmfmc_model" where
  "two_sample_model =
     (init_bmfmc_model \<lparr>features_config = ''no_features'', num_features = None, X_cols = None\<rparr>
        ''none'' [] False True [0] None)
     \<lparr>interface := Some True,
      Y_LFs_mc := Some [[1], [3]],
      Z_mc := Some [[1], [3]],
      m_f_mc := Some [0, 0],
      var_y_mc := Some [1, 1]\<rparr>"

section \<open>Double precision\<close>

text \<open>
  The arrays of the program hold IEEE 754 binary64 numbers. Two of its computations are
  repeated here on that format, because what they return depends on rounding, on overflow
  and on \<open>nan\<close>: the helper \<^verbatim>\<open>_linear_scale_a_to_b\<close> and the body of the inner loop of
  \<^verbatim>\<open>_calculate_p_yhf_var\<close>.

  A double is a finite number, one of the two infinities, or \<open>nan\<close>. The two zeros of the
  format are one value \<open>Finite 0\<close>; where the sign of a zero decides (a division by it),
  it is read as \<open>+0\<close>, which is what \<open>x - x\<close> yields.
\<close>

datatype double = Finite real | PInf | NInf | NaN

subsection \<open>Rounding\<close>

text \<open>
  Round to nearest, ties to even. A real number \<open>r\<close> other than zero lies in the binade
  \<open>2\<^sup>e \<le> |r| < 2\<^sup>e\<^sup>+\<^sup>1\<close>; the doubles of that binade are the multiples of \<open>2\<^sup>e\<^sup>-\<^sup>5\<^sup>2\<close>,
  and below \<open>2\<^sup>-\<^sup>1\<^sup>0\<^sup>2\<^sup>2\<close> (the subnormal numbers) the multiples of \<open>2\<^sup>-\<^sup>1\<^sup>0\<^sup>7\<^sup>4\<close>. A result that
  rounds to \<open>2\<^sup>1\<^sup>0\<^sup>2\<^sup>4\<close> or beyond overflows to an infinity.
\<close>

definition binade :: "real \<Rightarrow> int" where
  "binade r = max \<lfloor>log 2 \<bar>r\<bar>\<rfloor> (- 1022)"

definition ulp :: "real \<Rightarrow> real" where
  "ulp r = 2 powr (real_of_int (binade r) - 52)"

definition round_half_even :: "real \<Rightarrow> int" where
  "round_half_even x =
     (if x - real_of_int \<lfloor>x\<rfloor> < 1 / 2 then \<lfloor>x\<rfloor>
      else if 1 / 2 < x - real_of_int \<lfloor>x\<rfloor> then \<lfloor>x\<rfloor> + 1
      else if even \<lfloor>x\<rfloor> then \<lfloor>x\<rfloor> else \<lfloor>x\<rfloor> + 1)"

definition round_double :: "real \<Rightarrow> real" where
  "round_double r = (if r = 0 then 0 else real_of_int (round_half_even (r / ulp r)) * ulp r)"

definition to_double :: "real \<Rightarrow> double" where
  "to_double r =
     (if 2 ^ 1024 \<le> round_double r then PInf
      else if round_double r \<le> - (2 ^ 1024) then NInf
      else Finite (round_double r))"


subsection \<open>Arithmetic\<close>

text \<open>
  Every operation on finite operands is the exact result, rounded. numpy raises on none
  of them: a division by zero, an overflow and an invalid operation go on with \<open>inf\<close> or
  \<open>nan\<close> (and a warning). \<open>nan\<close> is the result of \<open>inf - inf\<close>, \<open>0 * inf\<close>, \<open>0 / 0\<close> and
  \<open>inf / inf\<close> and of every operation on a \<open>nan\<close>; a comparison with \<open>nan\<close> is false.
\<close>

definition dneg :: "double \<Rightarrow> double" where
  "dneg a = (case a of Finite x \<Rightarrow> Finite (- x) | PInf \<Rightarrow> NInf | NInf \<Rightarrow> PInf | NaN \<Rightarrow> NaN)"

fun dadd :: "double \<Rightarrow> double \<Rightarrow> double" where
  "dadd (Finite x) (Finite y) = to_double (x + y)"
| "dadd NaN b = NaN"
| "dadd a NaN = NaN"
| "dadd PInf NInf = NaN"
| "dadd NInf PInf = NaN"
| "dadd PInf b = PInf"
| "dadd a PInf = PInf"
| "dadd NInf b = NInf"
| "dadd a NInf = NInf"


fun dmul :: "double \<Rightarrow> double \<Rightarrow> double" where
  "dmul (Finite x) (Finite y) = to_double (x * y)"
| "dmul NaN b = NaN"
| "dmul a NaN = NaN"
| "dmul (Finite x) b = (if x = 0 then NaN else if 0 < x then b else dneg b)"
| "dmul a (Finite y) = (if y = 0 then NaN else if 0 < y then a else dneg a)"
| "dmul PInf PInf = PInf"
| "dmul NInf NInf = PInf"
| "dmul PInf NInf = NInf"
| "dmul NInf PInf = NInf"










subsection \<open>The linear rescaling on doubles\<close>




subsection \<open>The pairwise contribution on doubles\<close>




section \<open>Properties\<close>

subsection \<open>Reductions\<close>

lemma np_min_Min:
  "concat M \<noteq> [] \<Longrightarrow> np_min M = Inr (Min (set (concat M)))"
  by (cases "concat M") (simp_all add: np_min_def Min.set_eq_fold [symmetric])

lemma np_max_Max:
  "concat M \<noteq> [] \<Longrightarrow> np_max M = Inr (Max (set (concat M)))"
  by (cases "concat M") (simp_all add: np_max_def Max.set_eq_fold [symmetric])

subsection \<open>Linear rescaling\<close>

lemma affine_range:
  fixes x lo hi a b :: real
  assumes "lo \<le> x" "x \<le> hi" "lo < hi" "a \<le> b"
  shows "a \<le> a + (x - lo) * (b - a) / (hi - lo)" "a + (x - lo) * (b - a) / (hi - lo) \<le> b"
proof -
  have d: "0 < hi - lo" using assms by simp
  have "0 \<le> (x - lo) * (b - a)" using assms by simp
  then have "0 \<le> (x - lo) * (b - a) / (hi - lo)" using d by simp
  then show "a \<le> a + (x - lo) * (b - a) / (hi - lo)" by simp
  have "(x - lo) * (b - a) \<le> (hi - lo) * (b - a)"
    using assms by (intro mult_right_mono) simp_all
  then have "(x - lo) * (b - a) / (hi - lo) \<le> b - a"
    using d by (simp add: pos_divide_le_eq mult.commute)
  then show "a + (x - lo) * (b - a) / (hi - lo) \<le> b" by simp
qed

text \<open>
  In exact arithmetic, for a non-empty \<open>data_a\<close> whose maximum differs from its minimum and
  a non-empty \<open>data_b\<close>, the rescaling is the affine map
  \<open>x \<mapsto> min(data_b) + (x - min(data_a)) * (max(data_b) - min(data_b)) / (max(data_a) - min(data_a))\<close>,
  which sends \<open>min(data_a)\<close> to \<open>min(data_b)\<close> and \<open>max(data_a)\<close> to \<open>max(data_b)\<close> and every
  entry between the two. What is left of this on doubles is the subject of the last section.
\<close>

lemma linear_scale_a_to_b_exact:
  assumes a: "concat data_a \<noteq> []" and b: "concat data_b \<noteq> []"
  shows "(Max (set (concat data_a)) \<noteq> Min (set (concat data_a)) \<longrightarrow>
            linear_scale_a_to_b data_a data_b = Inr (map (map (affine_a_to_b data_a data_b)) data_a)
          \<and> affine_a_to_b data_a data_b (Min (set (concat data_a))) = Min (set (concat data_b))
          \<and> affine_a_to_b data_a data_b (Max (set (concat data_a))) = Max (set (concat data_b))
          \<and> (\<forall>x \<in> set (concat data_a).
                Min (set (concat data_b)) \<le> affine_a_to_b data_a data_b x
              \<and> affine_a_to_b data_a data_b x \<le> Max (set (concat data_b))))
       \<and> (Max (set (concat data_a)) = Min (set (concat data_a)) \<longrightarrow>
            linear_scale_a_to_b data_a data_b = Inl NotFinite)"
proof -
  let ?A = "set (concat data_a)" and ?B = "set (concat data_b)"
  have fin: "finite ?A" "?A \<noteq> {}" "finite ?B" "?B \<noteq> {}" using a b by (simp_all only: List.finite_set set_empty simp_thms)
  have le: "Min ?A \<le> Max ?A" "Min ?B \<le> Max ?B" using fin by (meson Max_ge Min_in)+
  have ev: "np_min data_a = Inr (Min ?A)" "np_max data_a = Inr (Max ?A)"
           "np_min data_b = Inr (Min ?B)" "np_max data_b = Inr (Max ?B)"
    using a b by (simp_all add: np_min_Min np_max_Max)
  have eq: "Max ?A = Min ?A \<Longrightarrow> linear_scale_a_to_b data_a data_b = Inl NotFinite"
    by (simp add: linear_scale_a_to_b_def ev bind_err_def)
  {
    assume ne: "Max ?A \<noteq> Min ?A"
    then have lt: "Min ?A < Max ?A" using le by simp
    have r: "linear_scale_a_to_b data_a data_b = Inr (map (map (affine_a_to_b data_a data_b)) data_a)"
      using ne by (simp add: linear_scale_a_to_b_def ev bind_err_def affine_a_to_b_def[abs_def])
    have lo: "affine_a_to_b data_a data_b (Min ?A) = Min ?B"
      by (simp add: affine_a_to_b_def)
    have hi: "affine_a_to_b data_a data_b (Max ?A) = Max ?B"
      using ne by (simp add: affine_a_to_b_def)
    have rg: "\<forall>x \<in> ?A. Min ?B \<le> affine_a_to_b data_a data_b x \<and> affine_a_to_b data_a data_b x \<le> Max ?B"
    proof
      fix x assume x: "x \<in> ?A"
      then have "Min ?A \<le> x" "x \<le> Max ?A" using fin by (meson Max_ge Min_le)+
      then show "Min ?B \<le> affine_a_to_b data_a data_b x \<and> affine_a_to_b data_a data_b x \<le> Max ?B"
        unfolding affine_a_to_b_def using affine_range[OF _ _ lt le(2)] by blast
    qed
    note r lo hi rg
  }
  then show ?thesis using eq by blast
qed

subsection \<open>Posterior mean density\<close>

lemma norm_pdf_gaussian:
  "0 < sigma \<Longrightarrow> norm_pdf x mu sigma = gaussian_density x mu sigma"
  by (simp add: norm_pdf_def gaussian_density_def field_simps)

lemma column_sum_nth:
  "sum_list (map (\<lambda>row. row ! k) (map f xs)) = (\<Sum>i<length xs. f (xs ! i) ! k)"
  by (simp add: sum_list_sum_nth atLeast0LessThan)

lemma p_yhf_mean_on_support_average:
  assumes len: "length m_f = N" "length var_y = N" and N: "0 < N"
    and pos: "\<forall>v \<in> set var_y. 0 < v"
  shows "\<exists>p. p_yhf_mean_on_support support m_f var_y = Inr p \<and> length p = length support \<and>
           (\<forall>k < length support. p ! k = 1 / real N *
             (\<Sum>i<N. gaussian_density (support ! k) (m_f ! i) (sqrt (var_y ! i))))"
proof -
  let ?row = "\<lambda>(loc, v). map (\<lambda>x. norm_pdf x loc (sqrt v)) support"
  let ?zs = "zip m_f var_y"
  have bc: "broadcast_pairs m_f var_y = Inr ?zs" using len by (simp add: broadcast_pairs_def)
  have nope: "\<not> (\<exists>(loc, v) \<in> set ?zs. v \<le> 0)"
    using pos by (force simp: not_le dest: set_zip_rightD)
  have lz: "length ?zs = N" using len by simp
  have entry: "?row (?zs ! i) ! k = gaussian_density (support ! k) (m_f ! i) (sqrt (var_y ! i))"
    if "i < N" "k < length support" for i k
  proof -
    have "0 < var_y ! i" using pos len that by simp
    then have "0 < sqrt (var_y ! i)" by simp
    then show ?thesis using that len by (simp add: norm_pdf_gaussian)
  qed
  have col: "sum_list (map (\<lambda>row. row ! k) (map ?row ?zs)) =
      (\<Sum>i<N. gaussian_density (support ! k) (m_f ! i) (sqrt (var_y ! i)))"
    if k: "k < length support" for k
  proof -
    have "sum_list (map (\<lambda>row. row ! k) (map ?row ?zs)) = (\<Sum>i<length ?zs. ?row (?zs ! i) ! k)"
      by (rule column_sum_nth)
    also have "\<dots> = (\<Sum>i<N. gaussian_density (support ! k) (m_f ! i) (sqrt (var_y ! i)))"
      unfolding lz by (rule sum.cong) (simp_all add: entry k)
    finally show ?thesis .
  qed
  have val: "p_yhf_mean_on_support support m_f var_y =
      Inr (map (\<lambda>p. 1 / real N * p) (np_sum_axis0 (length support) (map ?row ?zs)))"
    using len N nope by (simp add: p_yhf_mean_on_support_def bc bind_err_def Let_def)
  show ?thesis
    unfolding val by (simp add: np_sum_axis0_def col del: map_map)
qed

text \<open>
  C1. On a model with \<open>N \<ge> 1\<close> Monte-Carlo samples of positive predictive variance,
  \<^verbatim>\<open>_calculate_p_yhf_mean\<close> returns and assigns to \<open>p_yhf_mean\<close>, and to nothing else, the
  array that holds for every support point \<open>s\<close> of \<open>y_pdf_support\<close> the value \<open>1/N\<close> times the sum
  over the samples \<open>i\<close> of the Gaussian density at \<open>s\<close> with mean \<open>m_f_mc[i]\<close> and standard
  deviation \<open>sqrt(var_y_mc[i])\<close>.
\<close>

theorem p_yhf_mean_is_mc_average:
  assumes m: "m_f_mc self = Some m_f" and v: "var_y_mc self = Some var_y"
    and len: "length m_f = N" "length var_y = N" and N: "0 < N"
    and pos: "\<forall>v \<in> set var_y. 0 < v"
  shows "\<exists>p. calculate_p_yhf_mean self = Returned (self\<lparr>p_yhf_mean := Some p\<rparr>) \<and>
           length p = length (y_pdf_support self) \<and>
           (\<forall>k < length (y_pdf_support self). p ! k = 1 / real N *
             (\<Sum>i<N. gaussian_density (y_pdf_support self ! k) (m_f ! i) (sqrt (var_y ! i))))"
proof -
  obtain p where p: "p_yhf_mean_on_support (y_pdf_support self) m_f var_y = Inr p"
      "length p = length (y_pdf_support self)"
      "\<forall>k < length (y_pdf_support self). p ! k = 1 / real N *
         (\<Sum>i<N. gaussian_density (y_pdf_support self ! k) (m_f ! i) (sqrt (var_y ! i)))"
    using p_yhf_mean_on_support_average [OF len N pos] by blast
  have "calculate_p_yhf_mean self = Returned (self\<lparr>p_yhf_mean := Some p\<rparr>)"
    using m v p(1) by (simp add: calculate_p_yhf_mean_def try_with_def require_def)
  then show ?thesis using p(2,3) by blast
qed

theorem p_yhf_mean_is_mc_average_witness:
  "calculate_p_yhf_mean two_sample_model =
     Returned (two_sample_model\<lparr>p_yhf_mean := Some [1 / sqrt (2 * pi)]\<rparr>)"
proof -
  have s: "y_pdf_support two_sample_model = [0]" "m_f_mc two_sample_model = Some [0, 0]"
    "var_y_mc two_sample_model = Some [1, 1]"
    by (simp_all add: two_sample_model_def init_bmfmc_model_def)
  obtain p where p: "calculate_p_yhf_mean two_sample_model =
        Returned (two_sample_model\<lparr>p_yhf_mean := Some p\<rparr>)" "length p = 1"
      "p ! 0 = 1 / 2 * (\<Sum>i<2. gaussian_density 0 ([0, 0] ! i) (sqrt ([1, 1] ! i)))"
    using p_yhf_mean_is_mc_average [of two_sample_model "[0, 0]" "[1, 1]" 2] s by auto
  have "p ! 0 = 1 / sqrt (2 * pi)"
    unfolding p(3) by (simp add: gaussian_density_def lessThan_Suc numeral_2_eq_2)
  then have "p = [1 / sqrt (2 * pi)]" using p(2) by (cases p) simp_all
  then show ?thesis using p(1) by simp
qed


subsection \<open>Pairwise bivariate-Gaussian accumulation\<close>

lemma np_dot_2x2:
  "np_dot (map (\<lambda>p. [f p, g p]) ps) [[a, b], [c, d]] =
     Inr (map (\<lambda>p. [f p * a + g p * c, f p * b + g p * d]) ps)"
  by (simp add: np_dot_def)

lemma pair_contribution_pointwise:
  assumes nz: "clamped_det var1 var2 covariance \<noteq> 0"
  shows "pair_contribution support mean1 var1 mean2 var2 covariance =
     Inr (map (\<lambda>s. exp (min 40 (- (1 / 2) *
            quadratic_form (clamped_det var1 var2 covariance) var1 var2
              (clamped_cov var1 var2 covariance) (s - mean1) (s - mean2)
            + ln (1 / sqrt (4 * pi\<^sup>2 * clamped_det var1 var2 covariance))))) support)"
proof -
  let ?det = "clamped_det var1 var2 covariance" and ?cov = "clamped_cov var1 var2 covariance"
  have q: "((s - mean1) * (var2 / ?det) - (s - mean2) * (?cov / ?det)) * (s - mean1)
         + ((s - mean2) * (var1 / ?det) - (s - mean1) * (?cov / ?det)) * (s - mean2)
         = quadratic_form ?det var1 var2 ?cov (s - mean1) (s - mean2)" for s
    using nz by (simp add: quadratic_form_def field_simps power2_eq_square)
  have clip: "(if x > 40 then 40 else x) = min 40 x" for x :: real by (simp add: min_def)
  show ?thesis
    unfolding pair_contribution_def Let_def clamped_det_def[symmetric] clamped_cov_def[symmetric]
    using nz
    apply (simp add: np_dot_2x2 bind_err_def zip_map_map zip_same_conv_map clip o_def del: min_less_iff_conj)
    apply (simp add: q [symmetric])
    done
qed

text \<open>
  In exact arithmetic, when the determinant \<open>var1 * var2 - covariance\<^sup>2\<close> is negative the
  contribution of the pair at every support point is the exponential of the smaller of
  \<open>40\<close> and \<open>-b/2 + log(1/c)\<close> formed with the determinant \<open>10\<^sup>-\<^sup>6\<close> and \<open>0.95\<close> times the
  covariance. What is left of this on doubles is the subject of the last section.
\<close>

lemma pair_contribution_exact_clamp:
  assumes neg: "var1 * var2 - covariance\<^sup>2 < 0" and k: "k < length support"
  shows "\<exists>g. pair_contribution support mean1 var1 mean2 var2 covariance = Inr g \<and>
           length g = length support \<and>
           g ! k = exp (min 40 (- (1 / 2) *
                     quadratic_form (1 / 10 ^ 6) var1 var2 (95 / 100 * covariance)
                       (support ! k - mean1) (support ! k - mean2)
                     + ln (1 / sqrt (4 * pi\<^sup>2 * (1 / 10 ^ 6))))) \<and>
           0 \<le> g ! k \<and> g ! k \<le> exp 40"
proof -
  have d: "clamped_det var1 var2 covariance = 1 / 10 ^ 6"
    and c: "clamped_cov var1 var2 covariance = 95 / 100 * covariance"
    using neg by (simp_all add: clamped_det_def clamped_cov_def)
  have nz: "clamped_det var1 var2 covariance \<noteq> 0" unfolding d by simp
  show ?thesis
    unfolding pair_contribution_pointwise [OF nz] d c using k by simp
qed

subsection \<open>The covariance entry read by the inner loop\<close>

lemma sqrt_det_code: "sqrt (64 * pi\<^sup>2 / 25) = 8 * pi / 5"
  by (rule real_sqrt_unique) (simp_all add: power2_eq_square)

lemma p_yhf_var_loops_two_samples_value:
  "calculate_p_yhf_var_loops [0] (Some [1 / sqrt (2 * pi)]) [0, 0] [1, 1] [[3 / 5, 0], [0, 3 / 5]] None
     = Inr (Some [5 / (8 * pi) - 9995 / 10000 * (1 / (2 * pi))])"
proof -
  have nz: "clamped_det 1 1 (3 / 5) \<noteq> 0" by (simp add: clamped_det_def power2_eq_square)
  have d: "clamped_det 1 1 (3 / 5) = 16 / 25" by (simp add: clamped_det_def power2_eq_square)
  have c: "clamped_cov 1 1 (3 / 5) = 3 / 5" by (simp add: clamped_cov_def power2_eq_square)
  have "5 / (8 * pi) < 1" using pi_ge_two by simp
  then have "ln (5 / (8 * pi)) < 0" using pi_gt_zero by simp
  then have "ln (5 / (8 * pi)) \<le> 40" by linarith
  then have m: "min 40 (ln (5 / (8 * pi))) = ln (5 / (8 * pi))" by (rule min_absorb2)
  have pc: "pair_contribution [0] 0 1 0 1 (3 / 5) = Inr [5 / (8 * pi)]"
    unfolding pair_contribution_pointwise [OF nz] d c
    using pi_gt_zero by (simp add: quadratic_form_def sqrt_det_code m)
  show ?thesis
    by (simp add: calculate_p_yhf_var_loops_def p_yhf_var_inner_body_def enumerate_eq_zip
        k_post_at_def bind_err_def pc broadcast2_def power_divide)
qed


lemma spec_p_yhf_var_two_samples_value:
  "spec_p_yhf_var [0] [1 / sqrt (2 * pi)] [0, 0] [1, 1] [[3 / 5, 0], [0, 3 / 5]]
     = [1 / (2 * pi) - 9995 / 10000 * (1 / (2 * pi))]"
  by (simp add: spec_p_yhf_var_def sample_pairs_def bivariate_normal_density_def
      quadratic_form_def power_divide upt_rec)

lemma p_yhf_var_loops_two_samples:
  "calculate_p_yhf_var_loops support (Some pm) [m1, m2] [v1, v2] k_post pv =
     bind_err (k_post_at k_post 0 0) (\<lambda>covariance.
     bind_err (pair_contribution support m1 v1 m2 v2 covariance) (\<lambda>contribution.
     bind_err (broadcast2 (\<lambda>g p. 1 / 1 * g - 9995 / 10000 * p\<^sup>2)
                 (map2 (+) (replicate (length support) 0) contribution) pm)
       (\<lambda>v. Inr (Some v))))"
  by (simp add: calculate_p_yhf_var_loops_def p_yhf_var_inner_body_def enumerate_eq_zip
        bind_err_def split: sum.splits)

lemma p_yhf_mean_two_samples_value:
  "p_yhf_mean_on_support [0] [0, 0] [1, 1] = Inr [1 / sqrt (2 * pi)]"
  by (simp add: p_yhf_mean_on_support_def broadcast_pairs_def bind_err_def np_sum_axis0_def
      norm_pdf_def)

text \<open>
  C2. The posterior variance is claimed to sum, over the pairs \<open>i < j\<close>, the bivariate normal
  density formed with the posterior covariance of the samples \<open>i\<close> and \<open>j\<close>. The inner loop
  counts \<open>num2\<close> from \<open>0\<close> over the slice that starts at \<open>num1 + 1\<close> and reads
  \<open>k_post[num1, num1 + num2]\<close>, the entry one column to the left of the pair's. With the
  predictive-variance flag set, two samples of mean \<open>0\<close> and variance \<open>1\<close>,
  \<open>k_post = [[0.6, 0], [0, 0.6]]\<close> and the support \<open>[0]\<close>, \<^verbatim>\<open>compute_pyhf_statistics\<close> reads
  \<open>k_post[0, 0] = 0.6\<close> and assigns \<open>p_yhf_var = 5/(8 pi) - 0.9995/(2 pi)\<close>, where the claimed
  sum with \<open>k_post[0, 1] = 0\<close> gives \<open>1/(2 pi) - 0.9995/(2 pi)\<close>. The division by the number
  of pairs and the subtraction of \<open>0.9995 * p_yhf_mean\<^sup>2\<close> are as claimed.
\<close>

theorem p_yhf_var_covariance_index_off_by_one:
  "compute_pyhf_statistics (fixed_interface [0, 0] [1, 1] [[3 / 5, 0], [0, 3 / 5]]) two_sample_model
     = Returned (two_sample_model
         \<lparr>p_yhf_mean := Some [1 / sqrt (2 * pi)],
          p_yhf_var := Some [5 / (8 * pi) - 9995 / 10000 * (1 / (2 * pi))]\<rparr>)
   \<and> spec_p_yhf_var [0] [1 / sqrt (2 * pi)] [0, 0] [1, 1] [[3 / 5, 0], [0, 3 / 5]]
     = [1 / (2 * pi) - 9995 / 10000 * (1 / (2 * pi))]
   \<and> 5 / (8 * pi) - 9995 / 10000 * (1 / (2 * pi)) \<noteq> 1 / (2 * pi) - 9995 / 10000 * (1 / (2 * pi))"
proof -
  have mean: "calculate_p_yhf_mean two_sample_model =
      Returned (two_sample_model\<lparr>p_yhf_mean := Some [1 / sqrt (2 * pi)]\<rparr>)"
    by (simp add: calculate_p_yhf_mean_def two_sample_model_def init_bmfmc_model_def try_with_def
        require_def p_yhf_mean_two_samples_value)
  have var: "calculate_p_yhf_var (fixed_interface [0, 0] [1, 1] [[3 / 5, 0], [0, 3 / 5]])
        (two_sample_model\<lparr>p_yhf_mean := Some [1 / sqrt (2 * pi)]\<rparr>) =
      Returned (two_sample_model
         \<lparr>p_yhf_mean := Some [1 / sqrt (2 * pi)],
          p_yhf_var := Some [5 / (8 * pi) - 9995 / 10000 * (1 / (2 * pi))]\<rparr>)"
    by (simp add: calculate_p_yhf_var_def two_sample_model_def init_bmfmc_model_def try_with_def
        require_def fixed_interface_def p_yhf_var_loops_two_samples_value)
  have flag: "predictive_var_bool (two_sample_model\<lparr>p_yhf_mean := Some [1 / sqrt (2 * pi)]\<rparr>)"
    by (simp add: two_sample_model_def init_bmfmc_model_def)
  have "compute_pyhf_statistics (fixed_interface [0, 0] [1, 1] [[3 / 5, 0], [0, 3 / 5]]) two_sample_model
     = Returned (two_sample_model
         \<lparr>p_yhf_mean := Some [1 / sqrt (2 * pi)],
          p_yhf_var := Some [5 / (8 * pi) - 9995 / 10000 * (1 / (2 * pi))]\<rparr>)"
    unfolding compute_pyhf_statistics_def mean using flag var by (simp add: and_then_def)
  then show ?thesis using spec_p_yhf_var_two_samples_value by (simp add: field_simps)
qed

subsection \<open>Lookup of the high-fidelity training data\<close>

lemma map_err_Inr:
  "(\<And>x. x \<in> set xs \<Longrightarrow> f x = Inr (g x)) \<Longrightarrow> map_err f xs = Inr (map g xs)"
  by (induction xs) (simp_all add: bind_err_def)

lemma filter_upt_first:
  assumes "j < n" "P j" "\<forall>i<j. \<not> P i"
  shows "\<exists>rest. filter P [0..<n] = j # rest"
proof -
  have split: "[0..<n] = [0..<j] @ j # [Suc j..<n]"
    using assms(1) by (metis less_imp_add_positive upt_add_eq_append upt_conv_Cons zero_le)
  have "filter P [0..<j] = []" using assms(3) by (simp add: filter_empty_conv)
  then show ?thesis unfolding split using assms(2) by simp
qed

lemma first_matching_index_Least:
  assumes "row \<in> set x_mc"
  shows "first_matching_index x_mc row = Inr (LEAST j. j < length x_mc \<and> x_mc ! j = row)"
proof -
  let ?P = "\<lambda>j. j < length x_mc \<and> x_mc ! j = row"
  let ?j = "LEAST j. ?P j"
  obtain j0 where "?P j0" using assms by (auto simp: in_set_conv_nth)
  then have P: "?P ?j" by (rule LeastI)
  have min: "\<forall>i < ?j. \<not> x_mc ! i = row"
  proof (intro allI impI)
    fix i assume i: "i < ?j"
    then have "\<not> ?P i" by (rule not_less_Least)
    moreover have "i < length x_mc" using i P by simp
    ultimately show "\<not> x_mc ! i = row" by simp
  qed
  obtain rest where "filter (\<lambda>j. x_mc ! j = row) [0..<length x_mc] = ?j # rest"
    using filter_upt_first [of ?j "length x_mc" "\<lambda>j. x_mc ! j = row"] P min by blast
  then show ?thesis by (simp add: first_matching_index_def np_where_rows_equal_def)
qed

text \<open>
  C7. With an HF Monte-Carlo benchmark \<open>Y_HF_mc\<close> that is row-aligned to \<open>X_mc\<close>, and every
  row of \<open>X_train\<close> present in \<open>X_mc\<close>, the lookup succeeds for all rows: row \<open>i\<close> of
  \<open>Y_HF_train\<close> is \<open>Y_HF_mc\<close> at the first index \<open>j\<close> with \<open>X_mc[j] = X_train[i]\<close>, and nothing
  else of the object changes. Without a benchmark the method raises
  \<^verbatim>\<open>NotImplementedError\<close>, whether or not a subordinate HF model is there; it never runs one.
\<close>

theorem get_hf_training_data_lookup:
  assumes xt: "X_train self = Some x_train"
  shows "(Y_HF_mc self = None \<longrightarrow> get_hf_training_data self = Raised NotImplementedError self)
       \<and> (\<forall>x_mc y_hf_mc.
             X_mc self = Some x_mc \<and> Y_HF_mc self = Some y_hf_mc \<and>
             length x_mc \<le> length y_hf_mc \<and> (\<forall>r \<in> set x_train. r \<noteq> [] \<and> r \<in> set x_mc) \<longrightarrow>
             get_hf_training_data self =
               Returned (self\<lparr>Y_HF_train :=
                 Some (map (\<lambda>row. [y_hf_mc ! (LEAST j. j < length x_mc \<and> x_mc ! j = row)])
                         x_train)\<rparr>))"
proof (intro conjI allI impI)
  assume "Y_HF_mc self = None"
  then show "get_hf_training_data self = Raised NotImplementedError self"
    using xt by (simp add: get_hf_training_data_def)
next
  fix x_mc y_hf_mc
  assume a: "X_mc self = Some x_mc \<and> Y_HF_mc self = Some y_hf_mc \<and>
             length x_mc \<le> length y_hf_mc \<and> (\<forall>r \<in> set x_train. r \<noteq> [] \<and> r \<in> set x_mc)"
  let ?idx = "\<lambda>row. LEAST j. j < length x_mc \<and> x_mc ! j = row"
  have bound: "?idx row < length x_mc" if "row \<in> set x_train" for row
  proof -
    from that a have "row \<in> set x_mc" by simp
    then obtain j0 where "j0 < length x_mc \<and> x_mc ! j0 = row" by (auto simp: in_set_conv_nth)
    then have "?idx row < length x_mc \<and> x_mc ! ?idx row = row" by (rule LeastI)
    then show ?thesis by simp
  qed
  have rows: "map_err (\<lambda>row. bind_err (require ValueError (Some x_mc))
                                 (\<lambda>x_mc. first_matching_index x_mc row)) x_train
                = Inr (map ?idx x_train)"
  proof (rule map_err_Inr)
    fix row assume "row \<in> set x_train"
    then have "row \<in> set x_mc" using a by simp
    then show "bind_err (require ValueError (Some x_mc)) (\<lambda>x_mc. first_matching_index x_mc row)
                 = Inr (?idx row)"
      by (simp add: require_def bind_err_def first_matching_index_Least)
  qed
  have vals: "map_err (\<lambda>index. py_index y_hf_mc (int index)) (map ?idx x_train)
                = Inr (map (\<lambda>j. y_hf_mc ! j) (map ?idx x_train))"
  proof (rule map_err_Inr)
    fix j assume "j \<in> set (map ?idx x_train)"
    then have "j < length x_mc" using bound by auto
    then have "j < length y_hf_mc" using a by simp
    then show "py_index y_hf_mc (int j) = Inr (y_hf_mc ! j)" by (simp add: py_index_def)
  qed
  have nonempty: "\<not> (\<exists>r \<in> set x_train. r = [])" using a by auto
  show "get_hf_training_data self =
      Returned (self\<lparr>Y_HF_train := Some (map (\<lambda>row. [y_hf_mc ! ?idx row]) x_train)\<rparr>)"
    using xt a nonempty
    by (simp add: get_hf_training_data_def try_with_def rows vals o_def)
qed

lemma Least_second: "P (Suc 0) \<Longrightarrow> \<not> P 0 \<Longrightarrow> (LEAST j. P j) = Suc 0"
  by (rule Least_equality) (auto simp: Suc_le_eq intro: gr0I)

theorem get_hf_training_data_lookup_witness:
  "get_hf_training_data (lookup_example\<lparr>Y_HF_mc := Some [10, 20, 30, 40]\<rparr>)
     = Returned (lookup_example\<lparr>Y_HF_mc := Some [10, 20, 30, 40], Y_HF_train := Some [[10], [20]]\<rparr>)
   \<and> get_hf_training_data lookup_example = Raised NotImplementedError lookup_example"
  using get_hf_training_data_lookup [of "lookup_example\<lparr>Y_HF_mc := Some [10, 20, 30, 40]\<rparr>" "[[5, 6], [1, 2]]"]
        get_hf_training_data_lookup [of lookup_example "[[5, 6], [1, 2]]"]
  by (simp add: lookup_example_def init_bmfmc_model_def Least_second)

subsection \<open>Cross-validation of a mapping that has not been built\<close>

text \<open>
  C9, as the code has it. \<^verbatim>\<open>eval_surrogate_accuracy_cv\<close> returns error measures only from an
  interface object that exists and reports itself initialised: when the object reports
  that it is not initialised the method raises \<^verbatim>\<open>RuntimeError\<close>, and while the attribute is
  still \<^verbatim>\<open>None\<close> it raises \<^verbatim>\<open>AttributeError\<close>. The prediction calls of the model carry no
  guard of their own: \<^verbatim>\<open>_calculate_p_yhf_var\<close> raises \<^verbatim>\<open>AttributeError\<close> while the attribute is
  \<^verbatim>\<open>None\<close>, and neither it nor \<^verbatim>\<open>update_probabilistic_mapping_with_features\<close> depends on
  what \<^verbatim>\<open>is_initiliazed\<close> reports; what \<^verbatim>\<open>map\<close> does on an object that has not been built is
  decided inside the interface.
\<close>

theorem cross_validation_needs_built_mapping:
  "(interface self = None \<longrightarrow>
      eval_surrogate_accuracy_cv ops self Z Y_HF k_fold measure_names = Inl AttributeError)
   \<and> (\<forall>iface. interface self = Some iface \<and> \<not> iface_is_initiliazed ops iface \<longrightarrow>
      eval_surrogate_accuracy_cv ops self Z Y_HF k_fold measure_names = Inl RuntimeError)
   \<and> (\<forall>errors. eval_surrogate_accuracy_cv ops self Z Y_HF k_fold measure_names = Inr errors \<longrightarrow>
      (\<exists>iface. interface self = Some iface \<and> iface_is_initiliazed ops iface))
   \<and> (interface self = None \<longrightarrow> calculate_p_yhf_var ops self = Raised AttributeError self)
   \<and> calculate_p_yhf_var (ops\<lparr>iface_is_initiliazed := flag\<rparr>) self = calculate_p_yhf_var ops self
   \<and> update_probabilistic_mapping_with_features (ops\<lparr>iface_is_initiliazed := flag\<rparr>) self =
       update_probabilistic_mapping_with_features ops self"
  by (auto simp: eval_surrogate_accuracy_cv_def calculate_p_yhf_var_def
      update_probabilistic_mapping_with_features_def try_with_def require_def
      split: option.splits if_splits)

theorem cross_validation_needs_built_mapping_witness:
  "eval_surrogate_accuracy_cv flag_interface unbuilt_example (Some [[1], [2]]) (Some [[3], [4]]) 5
     [''sum_squared''] = Inl RuntimeError
   \<and> calculate_p_yhf_var flag_interface (unbuilt_example\<lparr>interface := None\<rparr>) =
       Raised AttributeError (unbuilt_example\<lparr>interface := None\<rparr>)"
proof -
  have i: "interface unbuilt_example = Some False" "\<not> iface_is_initiliazed flag_interface False"
    "interface (unbuilt_example\<lparr>interface := None\<rparr>) = None"
    by (simp_all add: unbuilt_example_def init_bmfmc_model_def flag_interface_def)
  have "eval_surrogate_accuracy_cv flag_interface unbuilt_example (Some [[1], [2]])
          (Some [[3], [4]]) 5 [''sum_squared''] = Inl RuntimeError"
    using cross_validation_needs_built_mapping
            [of unbuilt_example flag_interface "Some [[1], [2]]" "Some [[3], [4]]" 5
                "[''sum_squared'']" "\<lambda>built. built"] i(1,2)
    by blast
  moreover have "calculate_p_yhf_var flag_interface (unbuilt_example\<lparr>interface := None\<rparr>) =
       Raised AttributeError (unbuilt_example\<lparr>interface := None\<rparr>)"
    using cross_validation_needs_built_mapping
            [of "unbuilt_example\<lparr>interface := None\<rparr>" flag_interface None None 5 "[]"
                "\<lambda>built. built"] i(3)
    by blast
  ultimately show ?thesis by simp
qed

text \<open>
  C9 as stated fails on the object that \<^verbatim>\<open>__init__\<close> leaves, where no mapping has been built:
  the request for the cross-validation accuracy raises \<^verbatim>\<open>AttributeError\<close>, not the
  \<^verbatim>\<open>RuntimeError\<close> of the state check.
\<close>

theorem cross_validation_before_interface_exists:
  "eval_surrogate_accuracy_cv flag_interface
     (init_bmfmc_model \<lparr>features_config = ''no_features'', num_features = None, X_cols = None\<rparr>
        ''kfold'' [''sum_squared''] False False [0] None)
     (Some [[1], [2]]) (Some [[3], [4]]) 5 [''sum_squared''] = Inl AttributeError
   \<and> AttributeError \<noteq> RuntimeError"
  by (simp add: eval_surrogate_accuracy_cv_def init_bmfmc_model_def)


subsection \<open>Validation of the number of features\<close>

lemma eval_model_example:
  "eval_model (example_iterator tag k) =
     Returned ((example_iterator tag k)
       \<lparr>Y_LF_train := Some [[1], [3]], it_Y_HF_train := Some [[3], [7]],
        model_evaluations := [LF_model, HF_model]\<rparr>)"
  by (simp add: eval_model_def evaluate_LF_model_for_X_train_def evaluate_HF_model_for_X_train_def
      example_iterator_def init_bmfia_iterator_def and_then_def try_with_def reshape_rows_def Let_def)

lemma eval_model_Returned:
  assumes "eval_model it = Returned it'"
  shows "model_evaluations it' = model_evaluations it @ [LF_model, HF_model]"
    and "it_settings_probab_mapping it' = it_settings_probab_mapping it"
    and "it_Z_train it' = it_Z_train it"
    and "it_X_train it' = it_X_train it"
    and "coords_experimental_data it' = coords_experimental_data it"
  using assms
  by (auto simp: eval_model_def evaluate_LF_model_for_X_train_def evaluate_HF_model_for_X_train_def
      and_then_def try_with_def Let_def split: sum.splits outcome.splits)

lemma bmfmc_opt_features_invalid:
  assumes "features_config (settings_probab_mapping self) = ''opt_features''"
    and "num_features (settings_probab_mapping self) = Some k" and "k < 1"
  shows "set_feature_strategy ops self = Raised ValueError self"
  using assms by (simp add: set_feature_strategy_def try_with_def require_def and_then_def)

lemma bmfia_opt_features_invalid:
  assumes "features_config (it_settings_probab_mapping it) = ''opt_features''"
    and "num_features (it_settings_probab_mapping it) = Some k" and "k < 1"
  shows "bmfia_set_feature_strategy it =
           Raised ValueError (it\<lparr>coords_experimental_data :=
             concat (replicate (length (it_X_train it)) (coords_experimental_data it))\<rparr>)"
  using assms by (simp add: bmfia_set_feature_strategy_def try_with_def require_def Let_def)

text \<open>
  C5, as the code has it. With \<^verbatim>\<open>opt_features\<close> and \<open>num_features < 1\<close> the method
  \<^verbatim>\<open>set_feature_strategy\<close> of the BMFMC model raises \<^verbatim>\<open>ValueError\<close> and leaves the object as
  it was. \<^verbatim>\<open>core_run\<close> of the BMFIA iterator raises as well, but \<^verbatim>\<open>eval_model\<close> comes first:
  when both evaluations succeed, the \<^verbatim>\<open>ValueError\<close> is raised with the LF and the HF
  evaluation done and \<open>Z_train\<close> untouched; when an evaluation raises, that exception ends
  the run.
\<close>

theorem opt_features_validation:
  assumes cfg: "features_config cfg = ''opt_features''" "num_features cfg = Some k" and k: "k < 1"
  shows "(settings_probab_mapping self = cfg \<longrightarrow>
            set_feature_strategy ops self = Raised ValueError self)
       \<and> (it_settings_probab_mapping it = cfg \<longrightarrow>
            (\<forall>it'. eval_model it = Returned it' \<longrightarrow>
               (\<exists>s. core_run it = Raised ValueError s \<and>
                    model_evaluations s = model_evaluations it @ [LF_model, HF_model] \<and>
                    it_Z_train s = it_Z_train it))
          \<and> (\<forall>e it'. eval_model it = Raised e it' \<longrightarrow> core_run it = Raised e it'))"
proof (intro conjI impI allI)
  assume "settings_probab_mapping self = cfg"
  then show "set_feature_strategy ops self = Raised ValueError self"
    using cfg k by (intro bmfmc_opt_features_invalid [of _ k]) simp_all
next
  fix it' assume s: "it_settings_probab_mapping it = cfg" and ev: "eval_model it = Returned it'"
  note keep = eval_model_Returned [OF ev]
  have "bmfia_set_feature_strategy it' =
      Raised ValueError (it'\<lparr>coords_experimental_data :=
        concat (replicate (length (it_X_train it')) (coords_experimental_data it'))\<rparr>)"
    using cfg k s keep(2) by (intro bmfia_opt_features_invalid [of _ k]) simp_all
  then show "\<exists>s. core_run it = Raised ValueError s \<and>
                 model_evaluations s = model_evaluations it @ [LF_model, HF_model] \<and>
                 it_Z_train s = it_Z_train it"
    using ev keep by (simp add: core_run_def and_then_def)
next
  fix e it' assume "eval_model it = Raised e it'"
  then show "core_run it = Raised e it'" by (simp add: core_run_def and_then_def)
qed

theorem opt_features_validation_witness:
  "set_feature_strategy flag_interface (example_model ''opt_features'' (Some 0)) =
     Raised ValueError (example_model ''opt_features'' (Some 0))
   \<and> (\<exists>s. core_run (example_iterator ''opt_features'' (Some 0)) = Raised ValueError s \<and>
          model_evaluations s = [LF_model, HF_model] \<and> it_Z_train s = None)"
  using opt_features_validation
          [of "\<lparr>features_config = ''opt_features'', num_features = Some 0, X_cols = None\<rparr>" 0
              "example_model ''opt_features'' (Some 0)" flag_interface
              "example_iterator ''opt_features'' (Some 0)"]
        eval_model_example [of "''opt_features''" "Some 0"]
  by (simp add: example_model_def init_bmfmc_model_def example_iterator_def init_bmfia_iterator_def)

text \<open>
  C5 as stated fails for the iterator: with \<open>num_features = 0\<close> the run of the example
  iterator ends in the \<^verbatim>\<open>ValueError\<close>, and by then both models have been evaluated, none
  having been evaluated before the run.
\<close>

theorem validation_after_model_evaluation:
  "core_run (example_iterator ''opt_features'' (Some 0)) =
     Raised ValueError ((example_iterator ''opt_features'' (Some 0))
       \<lparr>Y_LF_train := Some [[1], [3]], it_Y_HF_train := Some [[3], [7]],
        coords_experimental_data := [[0, 0], [0, 0]],
        model_evaluations := [LF_model, HF_model]\<rparr>)
   \<and> model_evaluations (example_iterator ''opt_features'' (Some 0)) = []"
  by (simp add: core_run_def eval_model_example and_then_def bmfia_set_feature_strategy_def Let_def
      try_with_def require_def)
     (simp add: example_iterator_def init_bmfia_iterator_def)

subsection \<open>The feature strategies without features and with an unknown tag\<close>

text \<open>
  C6. With \<^verbatim>\<open>no_features\<close> the feature arrays are the LF outputs as they are. In the BMFMC
  model \<open>Z_train\<close> is \<open>Y_LFs_train\<close> and \<open>Z_mc\<close> is \<open>Y_LFs_mc\<close> when the method ends, and
  it returns when both are arrays (with one of them \<^verbatim>\<open>None\<close> the update of the model
  variables raises after the two assignments). In the BMFIA iterator, which has no
  Monte-Carlo feature array, \<open>Z_train\<close> is \<open>Y_LF_train\<close>.
\<close>

theorem no_features_identity:
  "(features_config (settings_probab_mapping self) = ''no_features'' \<longrightarrow>
      (\<exists>s. (set_feature_strategy ops self = Returned s \<or>
            set_feature_strategy ops self = Raised AttributeError s) \<and>
           Z_train s = Y_LFs_train self \<and> Z_mc s = Y_LFs_mc self \<and>
           Y_LFs_train s = Y_LFs_train self \<and> Y_LFs_mc s = Y_LFs_mc self) \<and>
      (\<forall>y_train y_mc. Y_LFs_train self = Some y_train \<and> Y_LFs_mc self = Some y_mc \<longrightarrow>
         (\<exists>s. set_feature_strategy ops self = Returned s \<and>
              Z_train s = Some y_train \<and> Z_mc s = Some y_mc)))
   \<and> (features_config (it_settings_probab_mapping it) = ''no_features'' \<longrightarrow>
      (\<exists>s. bmfia_set_feature_strategy it = Returned s \<and>
           it_Z_train s = map_option Arr2 (Y_LF_train it) \<and> Y_LF_train s = Y_LF_train it))"
proof (intro conjI impI allI)
  assume nf: "features_config (settings_probab_mapping self) = ''no_features''"
  let ?s = "self\<lparr>Z_train := Y_LFs_train self, Z_mc := Y_LFs_mc self\<rparr>"
  have step: "set_feature_strategy ops self = update_model_variables ?s"
    using nf by (simp add: set_feature_strategy_def and_then_def)
  show "\<exists>s. (set_feature_strategy ops self = Returned s \<or>
            set_feature_strategy ops self = Raised AttributeError s) \<and>
           Z_train s = Y_LFs_train self \<and> Z_mc s = Y_LFs_mc self \<and>
           Y_LFs_train s = Y_LFs_train self \<and> Y_LFs_mc s = Y_LFs_mc self"
    unfolding step
    by (cases "Y_LFs_train self"; cases "Y_LFs_mc self")
       (auto simp: update_model_variables_def try_with_def require_def Let_def)
  fix y_train y_mc
  assume "Y_LFs_train self = Some y_train \<and> Y_LFs_mc self = Some y_mc"
  then show "\<exists>s. set_feature_strategy ops self = Returned s \<and>
              Z_train s = Some y_train \<and> Z_mc s = Some y_mc"
    unfolding step by (simp add: update_model_variables_def try_with_def require_def Let_def)
next
  assume "features_config (it_settings_probab_mapping it) = ''no_features''"
  then show "\<exists>s. bmfia_set_feature_strategy it = Returned s \<and>
           it_Z_train s = map_option Arr2 (Y_LF_train it) \<and> Y_LF_train s = Y_LF_train it"
    by (simp add: bmfia_set_feature_strategy_def Let_def)
qed

theorem no_features_identity_witness:
  "(\<exists>s. set_feature_strategy flag_interface (example_model ''no_features'' None) = Returned s \<and>
        Z_train s = Some [[1], [3]] \<and> Z_mc s = Some [[1], [1], [3], [3]])
   \<and> (\<exists>s. bmfia_set_feature_strategy
             ((example_iterator ''no_features'' None)\<lparr>Y_LF_train := Some [[1], [3]]\<rparr>) = Returned s \<and>
          it_Z_train s = Some (Arr2 [[1], [3]]))"
  using no_features_identity
          [of "example_model ''no_features'' None" flag_interface
              "(example_iterator ''no_features'' None)\<lparr>Y_LF_train := Some [[1], [3]]\<rparr>"]
  by (simp add: example_model_def init_bmfmc_model_def example_iterator_def init_bmfia_iterator_def)
     blast

text \<open>
  C8. A feature configuration outside the supported tags raises and assigns no feature
  array: the BMFMC model, which knows \<^verbatim>\<open>man_features\<close>, \<^verbatim>\<open>opt_features\<close> and
  \<^verbatim>\<open>no_features\<close>, raises \<^verbatim>\<open>ValueError\<close> with the object unchanged; the BMFIA iterator, which
  also knows \<^verbatim>\<open>coord_features\<close> and \<^verbatim>\<open>time_features\<close>, raises \<^verbatim>\<open>IOError\<close> with only the
  coordinates tiled and \<open>Z_train\<close> as before.
\<close>

theorem unknown_features_config:
  "(features_config (settings_probab_mapping self)
        \<notin> {''man_features'', ''opt_features'', ''no_features''} \<longrightarrow>
      set_feature_strategy ops self = Raised ValueError self)
   \<and> (features_config (it_settings_probab_mapping it)
        \<notin> {''man_features'', ''opt_features'', ''coord_features'', ''no_features'',
           ''time_features''} \<longrightarrow>
      bmfia_set_feature_strategy it =
        Raised IOError (it\<lparr>coords_experimental_data :=
          concat (replicate (length (it_X_train it)) (coords_experimental_data it))\<rparr>)
      \<and> (\<forall>s. bmfia_set_feature_strategy it = Raised IOError s \<longrightarrow> it_Z_train s = it_Z_train it))"
  by (auto simp: set_feature_strategy_def and_then_def bmfia_set_feature_strategy_def Let_def)

theorem unknown_features_config_witness:
  "set_feature_strategy flag_interface (example_model ''bogus'' None) =
     Raised ValueError (example_model ''bogus'' None)
   \<and> Z_train (example_model ''bogus'' None) = None \<and> Z_mc (example_model ''bogus'' None) = None
   \<and> bmfia_set_feature_strategy (example_iterator ''bogus'' None) =
     Raised IOError ((example_iterator ''bogus'' None)\<lparr>coords_experimental_data := [[0, 0], [0, 0]]\<rparr>)"
  using unknown_features_config
          [of "example_model ''bogus'' None" flag_interface "example_iterator ''bogus'' None"]
  by (simp add: example_model_def init_bmfmc_model_def example_iterator_def init_bmfia_iterator_def)

subsection \<open>Greedy construction of the extended features\<close>

lemma scaler_example:
  "StandardScaler_fit_transform [[1], [1], [3], [3]] = Inr [[-1], [-1], [1], [1]]"
  by (simp add: StandardScaler_fit_transform_def column_mean_def column_scale_def Let_def)

lemma scores_example:
  "correlation_scores x_red_example (Some [[1], [1], [3], [3]]) = Inr [[4], [0]]"
  by (simp add: correlation_scores_def require_def bind_err_def scaler_example np_dot_def
      x_red_example_def)

lemma mask_example:
  "selection_mask x_red_example (Some [[1], [1], [3], [3]]) = Inr [[True], [False]]"
  by (simp add: selection_mask_def scores_example bind_err_def np_max_def)

lemma round_example:
  assumes "Y_LFs_mc self = Some [[1], [1], [3], [3]]" "gammas_ext_mc self = Some g" "length g = 4"
  shows "extended_gammas_round x_red_example counter self =
           Returned (self\<lparr>gammas_ext_mc := Some (map2 (@) g [[1], [1], [3], [3]])\<rparr>)"
proof -
  have dot: "np_dot x_red_example [[1], [0]] = Inr [[-1], [-1], [1], [1]]"
    by (simp add: np_dot_def x_red_example_def)
  have sc: "linear_scale_a_to_b [[-1], [-1], [1], [1]] [[1], [1], [3], [3]] = Inr [[1], [1], [3], [3]]"
    by (simp add: linear_scale_a_to_b_def np_min_def np_max_def bind_err_def)
  show ?thesis
    using assms
    by (simp add: extended_gammas_round_def mask_example try_with_def dot require_def bind_err_def
        sc np_hstack_def)
qed


lemma gammas_example:
  assumes "Y_LFs_mc self = Some [[1], [1], [3], [3]]"
  shows "calculate_extended_gammas x_red_example self =
           Returned (self\<lparr>gammas_ext_mc := Some [[1, 1], [1, 1], [3, 3], [3, 3]]\<rparr>)"
proof -
  have cols: "shape1 x_red_example = 2" "length x_red_example = 4"
    by (simp_all add: shape1_def x_red_example_def)
  have upt: "[0..<2] = [0, Suc 0]" by (simp add: upt_rec)
  show ?thesis
    unfolding calculate_extended_gammas_def Let_def cols upt
    using assms
    by (simp add: round_example and_then_def numeral_eq_Suc)
qed

text \<open>
  C4. The greedy construction is claimed never to select a dimension twice. The loop of
  \<^verbatim>\<open>calculate_extended_gammas\<close> runs once per dimension of \<open>x_red\<close> and computes the scores
  from \<open>x_iter_test\<close>, which it never changes, so every round selects the same dimension.
  On the example with two dimensions and \<open>num_features = 2\<close> both rounds select the first
  dimension: the two feature columns of \<open>gammas_ext_mc\<close> and of \<open>Z_mc\<close> are the same rescaled
  first dimension, and the second dimension is never used. \<open>Z_mc\<close> has two more columns
  than \<open>Y_LFs_mc\<close>, as claimed.
\<close>

theorem opt_features_reselects_dimension:
  "selection_mask x_red_example (Some [[1], [1], [3], [3]]) = Inr [[True], [False]]
   \<and> (\<exists>s. and_then (calculate_extended_gammas x_red_example (example_model ''opt_features'' (Some 2)))
               (update_probabilistic_mapping_with_features flag_interface) = Returned s
          \<and> gammas_ext_mc s = Some [[1, 1], [1, 1], [3, 3], [3, 3]]
          \<and> Z_mc s = Some [[1, 1, 1], [1, 1, 1], [3, 3, 3], [3, 3, 3]]
          \<and> Z_train s = Some [[1, 1, 1], [3, 3, 3]])"
proof -
  have y: "Y_LFs_mc (example_model ''opt_features'' (Some 2)) = Some [[1], [1], [3], [3]]"
    by (simp add: example_model_def)
  show ?thesis
    unfolding gammas_example [OF y]
    by (simp add: mask_example and_then_def update_probabilistic_mapping_with_features_def
        example_model_def init_bmfmc_model_def try_with_def require_def bind_err_def np_hstack_def
        py_slice_to_def select_rows_def py_index_def flag_interface_def Let_def)
qed

section \<open>Properties of the computations on doubles\<close>

subsection \<open>Rounding\<close>



lemma round_half_even_nonpos: "x \<le> 0 \<Longrightarrow> round_half_even x \<le> 0"
  unfolding round_half_even_def by auto

lemma round_half_even_of_int [simp]: "round_half_even (real_of_int n) = n"
  unfolding round_half_even_def by simp

lemma ulp_pos: "0 < ulp r" by (simp add: ulp_def)






lemma round_double_nonpos: "r \<le> 0 \<Longrightarrow> round_double r \<le> 0"
  using ulp_pos [of r] round_half_even_nonpos [of "r / ulp r"]
  by (simp add: round_double_def mult_le_0_iff divide_le_0_iff)



























subsection \<open>The determinant clamp on doubles\<close>

lemma dadd_NaN [simp]: "dadd a NaN = NaN" "dadd NaN a = NaN"
  by (cases a; simp)+

lemma dmul_NaN [simp]: "dmul a NaN = NaN" "dmul NaN a = NaN"
  by (cases a; simp)+












subsection \<open>The linear rescaling on doubles\<close>











end
